theory Spec2Isabelle
  imports Complex_Main "HOL-Library.Multiset" "HOL-Library.Product_Lexorder"
    "HOL-Library.List_Lexorder" "HOL-Library.Char_ord"
begin

section \<open>Float64 columns\<close>

text \<open>
  A pandas float64 cell is NaN, an infinity, or a finite double. A finite double is
  represented by the rational number it denotes. Every arithmetic operation on finite
  values is the exact operation followed by the rounding function \<open>rnd\<close> of the
  machine, which is a parameter of the model: IEEE-754 round-to-nearest is one instance,
  exact arithmetic (\<open>rnd = (\<lambda>x. x)\<close>) another. Overflow to infinity and the sign of zero
  are not modelled (the counts of the Census tables are far below the range of a double
  and are never negative zero).
\<close>

datatype f64 = NaN | PInf | NInf | Fin rat

text \<open>What the proofs need of the machine's rounding: it is monotone and leaves the
  integers up to \<open>2 ^ 53\<close> alone (they are representable).\<close>

definition rounding :: "(rat \<Rightarrow> rat) \<Rightarrow> bool" where
  "rounding rnd \<longleftrightarrow> mono rnd \<and> (\<forall>k::int. \<bar>k\<bar> \<le> 2 ^ 53 \<longrightarrow> rnd (of_int k) = of_int k)"

text \<open>\<^verbatim>\<open>a / b\<close> on float64 Series: numpy true division, which never raises.\<close>

fun fdiv :: "(rat \<Rightarrow> rat) \<Rightarrow> f64 \<Rightarrow> f64 \<Rightarrow> f64" where
  "fdiv rnd NaN y = NaN"
| "fdiv rnd x NaN = NaN"
| "fdiv rnd PInf PInf = NaN"
| "fdiv rnd PInf NInf = NaN"
| "fdiv rnd NInf PInf = NaN"
| "fdiv rnd NInf NInf = NaN"
| "fdiv rnd PInf (Fin b) = (if b < 0 then NInf else PInf)"
| "fdiv rnd NInf (Fin b) = (if b < 0 then PInf else NInf)"
| "fdiv rnd (Fin a) PInf = Fin 0"
| "fdiv rnd (Fin a) NInf = Fin 0"
| "fdiv rnd (Fin a) (Fin b) =
     (if b = 0 then (if a = 0 then NaN else if 0 < a then PInf else NInf)
      else Fin (rnd (a / b)))"

fun fmul :: "(rat \<Rightarrow> rat) \<Rightarrow> f64 \<Rightarrow> f64 \<Rightarrow> f64" where
  "fmul rnd NaN y = NaN"
| "fmul rnd x NaN = NaN"
| "fmul rnd PInf PInf = PInf"
| "fmul rnd PInf NInf = NInf"
| "fmul rnd NInf PInf = NInf"
| "fmul rnd NInf NInf = PInf"
| "fmul rnd PInf (Fin b) = (if b = 0 then NaN else if 0 < b then PInf else NInf)"
| "fmul rnd NInf (Fin b) = (if b = 0 then NaN else if 0 < b then NInf else PInf)"
| "fmul rnd (Fin a) PInf = (if a = 0 then NaN else if 0 < a then PInf else NInf)"
| "fmul rnd (Fin a) NInf = (if a = 0 then NaN else if 0 < a then NInf else PInf)"
| "fmul rnd (Fin a) (Fin b) = Fin (rnd (a * b))"

fun fadd :: "(rat \<Rightarrow> rat) \<Rightarrow> f64 \<Rightarrow> f64 \<Rightarrow> f64" where
  "fadd rnd NaN y = NaN"
| "fadd rnd x NaN = NaN"
| "fadd rnd PInf NInf = NaN"
| "fadd rnd NInf PInf = NaN"
| "fadd rnd PInf y = PInf"
| "fadd rnd NInf y = NInf"
| "fadd rnd (Fin a) PInf = PInf"
| "fadd rnd (Fin a) NInf = NInf"
| "fadd rnd (Fin a) (Fin b) = Fin (rnd (a + b))"

fun fneg :: "f64 \<Rightarrow> f64" where
  "fneg NaN = NaN"
| "fneg PInf = NInf"
| "fneg NInf = PInf"
| "fneg (Fin a) = Fin (- a)"

definition fsub :: "(rat \<Rightarrow> rat) \<Rightarrow> f64 \<Rightarrow> f64 \<Rightarrow> f64" where
  "fsub rnd x y = fadd rnd x (fneg y)"

text \<open>\<^verbatim>\<open>numpy.rint\<close>: the nearest integer, ties to the even one.\<close>

definition rint :: "rat \<Rightarrow> int" where
  "rint q =
     (let f = \<lfloor>q\<rfloor>; d = q - of_int f
      in if d < 1 / 2 then f else if 1 / 2 < d then f + 1 else if even f then f else f + 1)"

fun frint :: "f64 \<Rightarrow> f64" where
  "frint (Fin a) = Fin (of_int (rint a))"
| "frint x = x"

text \<open>\<^verbatim>\<open>Series.round(2)\<close>: numpy multiplies by \<open>10 ^ 2\<close>, applies \<open>rint\<close> and divides by
  \<open>10 ^ 2\<close>.\<close>

definition round2 :: "(rat \<Rightarrow> rat) \<Rightarrow> f64 \<Rightarrow> f64" where
  "round2 rnd x = fdiv rnd (frint (fmul rnd x (Fin 100))) (Fin 100)"

text \<open>The expression every rate column is computed by, one row at a time:
  \<^verbatim>\<open>(df[num] / df[den] * 100).round(2)\<close>.\<close>

definition pct_rate :: "(rat \<Rightarrow> rat) \<Rightarrow> f64 \<Rightarrow> f64 \<Rightarrow> f64" where
  "pct_rate rnd num den = round2 rnd (fmul rnd (fdiv rnd num den) (Fin 100))"


section \<open>Cells, tables and the pandas operations the scripts use\<close>

text \<open>A cell of a JSON matrix or of a data frame: null, a string, an integer, a float.\<close>

datatype cell = CNull | CStr string | CInt int | CNum f64

text \<open>The exceptions of the scripts and of the libraries they call, as values.\<close>

datatype exn =
    HTTPError nat
  | RequestException
  | JSONDecodeError
  | IndexError
  | KeyError cell
  | TypeError
  | ValueError
  | FileNotFoundError
  | IpumsApiError
  | OSError

definition bind_exn :: "exn + 'a \<Rightarrow> ('a \<Rightarrow> exn + 'b) \<Rightarrow> exn + 'b" where
  "bind_exn m f = (case m of Inl e \<Rightarrow> Inl e | Inr x \<Rightarrow> f x)"

fun chain :: "('a \<Rightarrow> exn + 'a) list \<Rightarrow> 'a \<Rightarrow> exn + 'a" where
  "chain [] x = Inr x"
| "chain (f # fs) x = bind_exn (f x) (chain fs)"

fun traverse :: "('a \<Rightarrow> exn + 'b) \<Rightarrow> 'a list \<Rightarrow> exn + 'b list" where
  "traverse f [] = Inr []"
| "traverse f (x # xs) =
     bind_exn (f x) (\<lambda>y. bind_exn (traverse f xs) (\<lambda>ys. Inr (y # ys)))"

text \<open>A data frame, row by row. Column labels are cells, as the header row of the JSON
  matrix supplies them. Every row is as long as the list of columns.\<close>

record table =
  columns :: "cell list"
  rows :: "cell list list"

definition pad_row :: "nat \<Rightarrow> cell list \<Rightarrow> cell list" where
  "pad_row k r = r @ replicate (k - length r) CNull"

text \<open>\<^verbatim>\<open>pd.DataFrame(rows, columns=headers)\<close> on a list of lists: no rows give an empty
  frame; otherwise the widest row fixes the number of columns, which must be the number
  of headers (else \<^verbatim>\<open>ValueError\<close>), and shorter rows are filled with \<^verbatim>\<open>None\<close>.\<close>

definition DataFrame :: "cell list list \<Rightarrow> cell list \<Rightarrow> exn + table" where
  "DataFrame data cols =
     (if data = [] then Inr \<lparr>columns = cols, rows = []\<rparr>
      else let k = foldr max (map length data) 0
           in if k \<noteq> length cols then Inl ValueError
              else Inr \<lparr>columns = cols, rows = map (pad_row k) data\<rparr>)"

text \<open>\<^verbatim>\<open>df[c] = v\<close> for a scalar \<open>v\<close>: every column labelled \<open>c\<close> is overwritten; if there
  is none, a new last column is added.\<close>

definition setitem_scalar :: "cell \<Rightarrow> cell \<Rightarrow> table \<Rightarrow> table" where
  "setitem_scalar c v df =
     (if c \<in> set (columns df)
      then df\<lparr>rows := map (\<lambda>r. map2 (\<lambda>l x. if l = c then v else x) (columns df) r) (rows df)\<rparr>
      else \<lparr>columns = columns df @ [c], rows = map (\<lambda>r. r @ [v]) (rows df)\<rparr>)"

text \<open>\<^verbatim>\<open>df[c] = series\<close>, the series holding one value per row.\<close>

definition setitem :: "cell \<Rightarrow> cell list \<Rightarrow> table \<Rightarrow> table" where
  "setitem c vs df =
     (if c \<in> set (columns df)
      then df\<lparr>rows := map2 (\<lambda>v r. map2 (\<lambda>l x. if l = c then v else x) (columns df) r) vs (rows df)\<rparr>
      else \<lparr>columns = columns df @ [c], rows = map2 (\<lambda>v r. r @ [v]) vs (rows df)\<rparr>)"

definition cell_at :: "cell list \<Rightarrow> nat \<Rightarrow> cell" where
  "cell_at r i = (if i < length r then r ! i else CNull)"

text \<open>\<^verbatim>\<open>df[c]\<close> where a Series is needed: \<^verbatim>\<open>KeyError\<close> without such a column; with several
  columns of that label pandas returns a frame, which \<^verbatim>\<open>pd.to_numeric\<close> and
  \<^verbatim>\<open>Series.map\<close> reject (\<^verbatim>\<open>TypeError\<close>).\<close>

definition col_index :: "cell \<Rightarrow> table \<Rightarrow> exn + nat" where
  "col_index c df =
     (case filter (\<lambda>i. columns df ! i = c) [0..<length (columns df)] of
        [] \<Rightarrow> Inl (KeyError c)
      | [i] \<Rightarrow> Inr i
      | _ \<Rightarrow> Inl TypeError)"

definition getitem :: "cell \<Rightarrow> table \<Rightarrow> exn + cell list" where
  "getitem c df = bind_exn (col_index c df) (\<lambda>i. Inr (map (\<lambda>r. cell_at r i) (rows df)))"

text \<open>\<^verbatim>\<open>df.rename(columns=mapping)\<close>.\<close>

definition rename :: "(cell \<times> cell) list \<Rightarrow> table \<Rightarrow> table" where
  "rename mapping df =
     df\<lparr>columns := map (\<lambda>c. case map_of mapping c of None \<Rightarrow> c | Some c' \<Rightarrow> c') (columns df)\<rparr>"

text \<open>The numeric side of pandas: the rounding of the machine and the parser
  \<^verbatim>\<open>pd.to_numeric\<close> applies to a string (library code, a parameter here).\<close>

record numerics =
  rnd :: "rat \<Rightarrow> rat"
  num_of_str :: "string \<Rightarrow> f64 option"

text \<open>\<^verbatim>\<open>pd.to_numeric(series, errors='coerce')\<close>, one cell at a time: what does not parse
  becomes NaN; nothing raises. The result is held as floats whatever dtype pandas
  chooses for the column: where every value is a whole number pandas keeps the column
  as int64, with the same values.\<close>

fun to_numeric :: "numerics \<Rightarrow> cell \<Rightarrow> cell" where
  "to_numeric L CNull = CNum NaN"
| "to_numeric L (CStr s) = CNum (case num_of_str L s of None \<Rightarrow> NaN | Some x \<Rightarrow> x)"
| "to_numeric L (CInt i) = CNum (Fin (of_int i))"
| "to_numeric L (CNum x) = CNum x"

text \<open>The value of a cell of a numeric column; arithmetic on a column of strings raises
  \<^verbatim>\<open>TypeError\<close>. (Every script converts a column with \<^verbatim>\<open>pd.to_numeric\<close> before it
  computes with it, so that in the scripts the operands are numeric whenever they
  exist.)\<close>

fun as_f64 :: "cell \<Rightarrow> exn + f64" where
  "as_f64 (CNum x) = Inr x"
| "as_f64 (CInt i) = Inr (Fin (of_int i))"
| "as_f64 c = Inl TypeError"

definition numeric_column :: "cell \<Rightarrow> table \<Rightarrow> exn + f64 list" where
  "numeric_column c df = bind_exn (getitem c df) (traverse as_f64)"

text \<open>\<^verbatim>\<open>df[c] = pd.to_numeric(df[c], errors='coerce')\<close>.\<close>

definition assign_to_numeric :: "numerics \<Rightarrow> cell \<Rightarrow> table \<Rightarrow> exn + table" where
  "assign_to_numeric L c df =
     bind_exn (getitem c df) (\<lambda>vs. Inr (setitem c (map (to_numeric L) vs) df))"

text \<open>\<^verbatim>\<open>df[new] = df[src]\<close>.\<close>

definition assign_copy :: "cell \<Rightarrow> cell \<Rightarrow> table \<Rightarrow> exn + table" where
  "assign_copy new src df = bind_exn (getitem src df) (\<lambda>vs. Inr (setitem new vs df))"

text \<open>\<^verbatim>\<open>df[new] = (df[num] / df[den] * 100).round(2)\<close>.\<close>

definition assign_rate :: "numerics \<Rightarrow> cell \<Rightarrow> cell \<Rightarrow> cell \<Rightarrow> table \<Rightarrow> exn + table" where
  "assign_rate L new num den df =
     bind_exn (numeric_column num df) (\<lambda>ns.
     bind_exn (numeric_column den df) (\<lambda>ds.
       Inr (setitem new (map CNum (map2 (pct_rate (rnd L)) ns ds)) df)))"

text \<open>\<^verbatim>\<open>df[new] = df[a] + df[b]\<close> and \<^verbatim>\<open>df[new] = df[a] - df[b]\<close>.\<close>

definition assign_binop ::
  "(f64 \<Rightarrow> f64 \<Rightarrow> f64) \<Rightarrow> cell \<Rightarrow> cell \<Rightarrow> cell \<Rightarrow> table \<Rightarrow> exn + table" where
  "assign_binop f new a b df =
     bind_exn (numeric_column a df) (\<lambda>xs.
     bind_exn (numeric_column b df) (\<lambda>ys.
       Inr (setitem new (map CNum (map2 f xs ys)) df)))"

text \<open>\<^verbatim>\<open>df[new] = df[c1] + df[c2] + ...\<close>, summed from the left.\<close>

fun assign_sum :: "numerics \<Rightarrow> cell \<Rightarrow> cell list \<Rightarrow> table \<Rightarrow> exn + table" where
  "assign_sum L new [] df = Inl ValueError"
| "assign_sum L new (c # cs) df =
     bind_exn (numeric_column c df) (\<lambda>xs.
     bind_exn (traverse (\<lambda>c'. numeric_column c' df) cs) (\<lambda>yss.
       Inr (setitem new (map CNum (foldl (map2 (fadd (rnd L))) xs yss)) df)))"

section \<open>Formatting the year into paths and URLs\<close>

definition digit_char :: "nat \<Rightarrow> char" where
  "digit_char d = ''0123456789'' ! d"

fun str_nat :: "nat \<Rightarrow> string" where
  "str_nat n = (if n < 10 then [digit_char n] else str_nat (n div 10) @ [digit_char (n mod 10)])"

text \<open>Python's \<^verbatim>\<open>str\<close> on an int, as an f-string applies it.\<close>

definition str_int :: "int \<Rightarrow> string" where
  "str_int i = (if i < 0 then CHR ''-'' # str_nat (nat (- i)) else str_nat (nat i))"

section \<open>The download scripts of the Census API\<close>

text \<open>What \<^verbatim>\<open>requests.get(url)\<close> meets: no response at all (the call raises an exception
  that is not an \<^verbatim>\<open>HTTPError\<close>), or a response with a status code and a body, which is
  a JSON matrix or fails to decode.\<close>

datatype reply = NoResponse | Response nat "cell list list option"

text \<open>\<^verbatim>\<open>response = requests.get(url); response.raise_for_status(); data = response.json()\<close>\<close>

fun fetch_json :: "reply \<Rightarrow> exn + cell list list" where
  "fetch_json NoResponse = Inl RequestException"
| "fetch_json (Response code body) =
     (if 400 \<le> code \<and> code < 600 then Inl (HTTPError code)
      else case body of None \<Rightarrow> Inl JSONDecodeError | Some data \<Rightarrow> Inr data)"

text \<open>What a script prints: the lines of the year loop, each with the values it
  formats in; any other line or block of lines is a \<open>Note\<close> that keeps the gist of its
  wording.\<close>

datatype msg =
    Fetching int
  | AlreadyExists int
  | Saved string
  | HTTPErrorFor int nat
  | ErrorFor int exn
  | Note string

text \<open>The state a script works on: the files on disk, the requests sent so far (each
  with the value of the loop variable \<^verbatim>\<open>year\<close> at the call), and what was printed.
  \<^verbatim>\<open>time.sleep\<close> changes none of them.\<close>

record world =
  files :: "string \<rightharpoonup> table"
  requests :: "(int \<times> string) list"
  stdout :: "msg list"

definition say :: "msg list \<Rightarrow> world \<Rightarrow> world" where
  "say ms w = w\<lparr>stdout := stdout w @ ms\<rparr>"

text \<open>The scripts of the Census API repeat one loop body; what differs from script to
  script is collected here: whether an existing output file makes the loop
  \<^verbatim>\<open>continue\<close>, the output path, the URL, the lines between \<^verbatim>\<open>df['year'] = year\<close> and
  \<^verbatim>\<open>df.to_csv\<close> (they receive the header row as well), whether there is an
  \<^verbatim>\<open>except requests.exceptions.HTTPError\<close> clause before \<^verbatim>\<open>except Exception\<close>, and what
  that clause prints after its first line.\<close>

record script =
  skip_existing :: bool
  output_file :: "int \<Rightarrow> string"
  url :: "int \<Rightarrow> string"
  transform :: "cell list \<Rightarrow> table \<Rightarrow> exn + table"
  http_handler :: bool
  http_note :: "int \<Rightarrow> nat \<Rightarrow> msg list"

text \<open>From the decoded JSON to the frame that is written:
  \<^verbatim>\<open>
  headers = data[0]; rows = data[1:]
  df = pd.DataFrame(rows, columns=headers)
  df['year'] = year
  ...
  \<close>\<close>

definition frame_of ::
  "int \<Rightarrow> (cell list \<Rightarrow> table \<Rightarrow> exn + table) \<Rightarrow> cell list list \<Rightarrow> exn + table" where
  "frame_of year tr data =
     (case data of
        [] \<Rightarrow> Inl IndexError
      | headers # rws \<Rightarrow>
          bind_exn (DataFrame rws headers) (\<lambda>df.
            tr headers (setitem_scalar (CStr ''year'') (CInt year) df)))"

text \<open>The body of the \<^verbatim>\<open>try\<close> before \<^verbatim>\<open>df.to_csv\<close>.\<close>

definition try_year :: "script \<Rightarrow> (string \<Rightarrow> reply) \<Rightarrow> int \<Rightarrow> exn + table" where
  "try_year s http year =
     bind_exn (fetch_json (http (url s year))) (frame_of year (transform s))"

text \<open>The \<^verbatim>\<open>except\<close> clauses: each prints and falls through to the end of the loop
  body.\<close>

definition handler :: "script \<Rightarrow> int \<Rightarrow> exn \<Rightarrow> msg list" where
  "handler s year e =
     (case e of
        HTTPError code \<Rightarrow>
          if http_handler s then HTTPErrorFor year code # http_note s year code
          else [ErrorFor year e]
      | _ \<Rightarrow> [ErrorFor year e])"

text \<open>One iteration of \<^verbatim>\<open>for year in years\<close>, on a disk where writing a file succeeds.\<close>

definition run_year :: "script \<Rightarrow> (string \<Rightarrow> reply) \<Rightarrow> int \<Rightarrow> world \<Rightarrow> world" where
  "run_year s http year w =
     (if skip_existing s \<and> files w (output_file s year) \<noteq> None
      then say [AlreadyExists year] w
      else
        let w1 = (say [Fetching year] w)\<lparr>requests := requests w @ [(year, url s year)]\<rparr>
        in case try_year s http year of
             Inr df \<Rightarrow>
               say [Saved (output_file s year)]
                 (w1\<lparr>files := (files w1)(output_file s year \<mapsto> df)\<rparr>)
           | Inl e \<Rightarrow> say (handler s year e) w1)"

text \<open>\<^verbatim>\<open>years = range(2010, 2024)\<close>\<close>

definition years :: "int list" where
  "years = [2010..2023]"

definition run_script :: "script \<Rightarrow> (string \<Rightarrow> reply) \<Rightarrow> world \<Rightarrow> world" where
  "run_script s http w = fold (run_year s http) years w"

text \<open>The same loop on a disk where \<^verbatim>\<open>df.to_csv\<close> can fail. What the call meets is a
  parameter: given the path, what the path holds and the frame, either the file is
  written, or the call raises \<^verbatim>\<open>OSError\<close> and leaves at the path what is given (nothing,
  the old file, or a part of the new one). The call stands inside the \<^verbatim>\<open>try\<close>, before
  the line that prints the path, so that \<^verbatim>\<open>except Exception\<close> catches its exception.\<close>

datatype write_outcome = Written | Write_fails "table option"

type_synonym csv_writer = "string \<Rightarrow> table option \<Rightarrow> table \<Rightarrow> write_outcome"

definition run_year_io ::
  "csv_writer \<Rightarrow> script \<Rightarrow> (string \<Rightarrow> reply) \<Rightarrow> int \<Rightarrow> world \<Rightarrow> world" where
  "run_year_io wr s http year w =
     (if skip_existing s \<and> files w (output_file s year) \<noteq> None
      then say [AlreadyExists year] w
      else
        let w1 = (say [Fetching year] w)\<lparr>requests := requests w @ [(year, url s year)]\<rparr>
        in case try_year s http year of
             Inr df \<Rightarrow>
               (case wr (output_file s year) (files w1 (output_file s year)) df of
                  Written \<Rightarrow>
                    say [Saved (output_file s year)]
                      (w1\<lparr>files := (files w1)(output_file s year \<mapsto> df)\<rparr>)
                | Write_fails left \<Rightarrow>
                    say (handler s year OSError)
                      (w1\<lparr>files := (files w1)(output_file s year := left)\<rparr>))
           | Inl e \<Rightarrow> say (handler s year e) w1)"

definition run_script_io ::
  "csv_writer \<Rightarrow> script \<Rightarrow> (string \<Rightarrow> reply) \<Rightarrow> world \<Rightarrow> world" where
  "run_script_io wr s http w = fold (run_year_io wr s http) years w"

definition census_url :: "string \<Rightarrow> string \<Rightarrow> int \<Rightarrow> string" where
  "census_url variables geo year =
     ''https://api.census.gov/data/'' @ str_int year @ ''/acs/acs5?get=NAME,'' @ variables
       @ ''&for='' @ geo @ '':*''"

definition data_file :: "string \<Rightarrow> string \<Rightarrow> string \<Rightarrow> int \<Rightarrow> string" where
  "data_file base dir stem year =
     base @ ''/data/'' @ dir @ ''/'' @ stem @ str_int year @ ''.csv''"

subsection \<open>download_census_data.py and download_county_data.py\<close>

definition census_script :: "string \<Rightarrow> script" where
  "census_script base =
     \<lparr>skip_existing = False,
      output_file = data_file base ''census_acs5'' ''acs5_puerto_rican_pop_'',
      url = census_url ''B03001_005E'' ''state'',
      transform = (\<lambda>headers df. Inr df),
      http_handler = True,
      http_note = (\<lambda>year code. if year = 2020 then [Note ''2020 data might have different handling''] else [])\<rparr>"

definition download_census_data :: "string \<Rightarrow> (string \<Rightarrow> reply) \<Rightarrow> world \<Rightarrow> world" where
  "download_census_data base http w = run_script (census_script base) http w"

definition county_script :: "string \<Rightarrow> script" where
  "county_script base =
     \<lparr>skip_existing = True,
      output_file = data_file base ''census_acs5_county'' ''acs5_puerto_rican_pop_county_'',
      url = census_url ''B03001_005E'' ''county'',
      transform = (\<lambda>headers df. Inr df),
      http_handler = False,
      http_note = (\<lambda>year code. [])\<rparr>"

definition download_county_data :: "string \<Rightarrow> (string \<Rightarrow> reply) \<Rightarrow> world \<Rightarrow> world" where
  "download_county_data base http w = run_script (county_script base) http w"


subsection \<open>download_poverty_data.py\<close>

definition poverty_transform :: "numerics \<Rightarrow> cell list \<Rightarrow> table \<Rightarrow> exn + table" where
  "poverty_transform L headers =
     chain
       [assign_to_numeric L (CStr ''B17001_001E''),
        assign_to_numeric L (CStr ''B17001_002E''),
        assign_rate L (CStr ''poverty_rate'') (CStr ''B17001_002E'') (CStr ''B17001_001E''),
        (\<lambda>df. Inr (rename
           [(CStr ''B17001_001E'', CStr ''total_population''),
            (CStr ''B17001_002E'', CStr ''below_poverty_level'')] df))]"

definition poverty_script :: "numerics \<Rightarrow> string \<Rightarrow> script" where
  "poverty_script L base =
     \<lparr>skip_existing = False,
      output_file = data_file base ''census_acs5_poverty'' ''acs5_poverty_'',
      url = census_url ''B17001_001E,B17001_002E'' ''state'',
      transform = poverty_transform L,
      http_handler = True,
      http_note = (\<lambda>year code. [])\<rparr>"

definition download_poverty_data ::
  "numerics \<Rightarrow> string \<Rightarrow> (string \<Rightarrow> reply) \<Rightarrow> world \<Rightarrow> world" where
  "download_poverty_data L base http w = run_script (poverty_script L base) http w"

subsection \<open>download_housing_data.py\<close>

definition housing_transform :: "numerics \<Rightarrow> cell list \<Rightarrow> table \<Rightarrow> exn + table" where
  "housing_transform L headers =
     chain
       [assign_to_numeric L (CStr ''B25064_001E''),
        assign_to_numeric L (CStr ''B25077_001E''),
        (\<lambda>df. Inr (rename
           [(CStr ''B25064_001E'', CStr ''median_gross_rent''),
            (CStr ''B25077_001E'', CStr ''median_home_value'')] df))]"

definition housing_script :: "numerics \<Rightarrow> string \<Rightarrow> script" where
  "housing_script L base =
     \<lparr>skip_existing = False,
      output_file = data_file base ''census_acs5_housing'' ''acs5_housing_'',
      url = census_url ''B25064_001E,B25077_001E'' ''state'',
      transform = housing_transform L,
      http_handler = True,
      http_note = (\<lambda>year code. [])\<rparr>"

definition download_housing_data ::
  "numerics \<Rightarrow> string \<Rightarrow> (string \<Rightarrow> reply) \<Rightarrow> world \<Rightarrow> world" where
  "download_housing_data L base http w = run_script (housing_script L base) http w"

subsection \<open>download_year_of_arrival_data.py\<close>

definition year_of_arrival_transform :: "numerics \<Rightarrow> cell list \<Rightarrow> table \<Rightarrow> exn + table" where
  "year_of_arrival_transform L headers =
     chain
       (map (assign_to_numeric L)
          [CStr ''B07001_001E'', CStr ''B07001_002E'', CStr ''B07001_003E'',
           CStr ''B07001_004E'', CStr ''B07001_005E'', CStr ''B07001_006E'']
        @ [assign_binop (fsub (rnd L)) (CStr ''moved_total'')
             (CStr ''B07001_001E'') (CStr ''B07001_002E''),
           assign_rate L (CStr ''migration_rate'') (CStr ''moved_total'') (CStr ''B07001_001E''),
           assign_rate L (CStr ''moved_from_different_state_rate'')
             (CStr ''B07001_005E'') (CStr ''B07001_001E''),
           assign_rate L (CStr ''moved_from_abroad_rate'')
             (CStr ''B07001_006E'') (CStr ''B07001_001E''),
           (\<lambda>df. Inr (rename
              [(CStr ''B07001_001E'', CStr ''total_population''),
               (CStr ''B07001_002E'', CStr ''same_house_1yr_ago''),
               (CStr ''B07001_003E'', CStr ''moved_same_county''),
               (CStr ''B07001_004E'', CStr ''moved_different_county_same_state''),
               (CStr ''B07001_005E'', CStr ''moved_different_state''),
               (CStr ''B07001_006E'', CStr ''moved_from_abroad'')] df))])"

definition year_of_arrival_script :: "numerics \<Rightarrow> string \<Rightarrow> script" where
  "year_of_arrival_script L base =
     \<lparr>skip_existing = False,
      output_file = data_file base ''census_acs5_migration'' ''acs5_migration_'',
      url = census_url
        ''B07001_001E,B07001_002E,B07001_003E,B07001_004E,B07001_005E,B07001_006E'' ''state'',
      transform = year_of_arrival_transform L,
      http_handler = True,
      http_note = (\<lambda>year code. [])\<rparr>"

definition download_year_of_arrival_data ::
  "numerics \<Rightarrow> string \<Rightarrow> (string \<Rightarrow> reply) \<Rightarrow> world \<Rightarrow> world" where
  "download_year_of_arrival_data L base http w =
     say [Note ''For detailed year-of-arrival cohort analysis consider using IPUMS microdata'']
       (run_script (year_of_arrival_script L base) http w)"

subsection \<open>download_commuting_data.py, download_language_data.py,
  download_health_insurance_data.py\<close>

text \<open>\<^verbatim>\<open>for col in headers: if col not in ['NAME', 'state']: df[col] = pd.to_numeric(...)\<close>\<close>

definition numeric_headers :: "cell list \<Rightarrow> cell list" where
  "numeric_headers headers = filter (\<lambda>col. col \<notin> set [CStr ''NAME'', CStr ''state'']) headers"

definition not_available_note :: "int \<Rightarrow> nat \<Rightarrow> msg list" where
  "not_available_note year code =
     (if code = 404 then [Note ''This table may not be available for this year''] else [])"

definition hispanic_only_notes :: "msg list" where
  "hispanic_only_notes =
     [Note ''Download complete!'',
      Note ''This is for ALL Hispanic/Latino populations, not Puerto Rican-specific.'',
      Note ''For Puerto Rican-specific data, use IPUMS microdata'']"

definition commuting_transform :: "numerics \<Rightarrow> cell list \<Rightarrow> table \<Rightarrow> exn + table" where
  "commuting_transform L headers =
     chain
       (map (assign_to_numeric L) (numeric_headers headers)
        @ [assign_copy (CStr ''drove_alone'') (CStr ''B08301I_003E''),
           assign_copy (CStr ''carpooled'') (CStr ''B08301I_004E''),
           assign_copy (CStr ''public_transit'') (CStr ''B08301I_010E''),
           assign_copy (CStr ''walked'') (CStr ''B08301I_016E''),
           assign_copy (CStr ''other_means'') (CStr ''B08301I_017E''),
           assign_copy (CStr ''worked_from_home'') (CStr ''B08301I_018E''),
           assign_rate L (CStr ''drove_alone_rate'') (CStr ''drove_alone'') (CStr ''B08301I_001E''),
           assign_rate L (CStr ''carpooled_rate'') (CStr ''carpooled'') (CStr ''B08301I_001E''),
           assign_rate L (CStr ''public_transit_rate'')
             (CStr ''public_transit'') (CStr ''B08301I_001E''),
           assign_rate L (CStr ''walked_rate'') (CStr ''walked'') (CStr ''B08301I_001E''),
           assign_rate L (CStr ''worked_from_home_rate'')
             (CStr ''worked_from_home'') (CStr ''B08301I_001E''),
           (\<lambda>df. Inr (rename [(CStr ''B08301I_001E'', CStr ''total_workers_16plus'')] df))])"

definition commuting_script :: "numerics \<Rightarrow> string \<Rightarrow> script" where
  "commuting_script L base =
     \<lparr>skip_existing = True,
      output_file = data_file base ''census_acs5_commuting'' ''acs5_commuting_'',
      url = census_url
        ''B08301I_001E,B08301I_003E,B08301I_004E,B08301I_010E,B08301I_016E,B08301I_017E,B08301I_018E''
        ''state'',
      transform = commuting_transform L,
      http_handler = True,
      http_note = not_available_note\<rparr>"

definition download_commuting_data ::
  "numerics \<Rightarrow> string \<Rightarrow> (string \<Rightarrow> reply) \<Rightarrow> world \<Rightarrow> world" where
  "download_commuting_data L base http w =
     say hispanic_only_notes (run_script (commuting_script L base) http w)"

definition language_transform :: "numerics \<Rightarrow> cell list \<Rightarrow> table \<Rightarrow> exn + table" where
  "language_transform L headers =
     chain
       (map (assign_to_numeric L) (numeric_headers headers)
        @ [assign_sum L (CStr ''speaks_spanish'')
             [CStr ''B16001I_003E'', CStr ''B16001I_004E'',
              CStr ''B16001I_005E'', CStr ''B16001I_006E''],
           assign_sum L (CStr ''limited_english_proficiency'')
             [CStr ''B16001I_005E'', CStr ''B16001I_006E''],
           assign_rate L (CStr ''english_only_rate'') (CStr ''B16001I_002E'') (CStr ''B16001I_001E''),
           assign_rate L (CStr ''spanish_speaking_rate'')
             (CStr ''speaks_spanish'') (CStr ''B16001I_001E''),
           assign_rate L (CStr ''limited_english_rate'')
             (CStr ''limited_english_proficiency'') (CStr ''B16001I_001E''),
           (\<lambda>df. Inr (rename
              [(CStr ''B16001I_001E'', CStr ''total_population_5plus''),
               (CStr ''B16001I_002E'', CStr ''speaks_english_only''),
               (CStr ''B16001I_003E'', CStr ''spanish_english_very_well''),
               (CStr ''B16001I_004E'', CStr ''spanish_english_well''),
               (CStr ''B16001I_005E'', CStr ''spanish_english_not_well''),
               (CStr ''B16001I_006E'', CStr ''spanish_english_not_at_all'')] df))])"

definition language_script :: "numerics \<Rightarrow> string \<Rightarrow> script" where
  "language_script L base =
     \<lparr>skip_existing = True,
      output_file = data_file base ''census_acs5_language'' ''acs5_language_'',
      url = census_url
        ''B16001I_001E,B16001I_002E,B16001I_003E,B16001I_004E,B16001I_005E,B16001I_006E''
        ''state'',
      transform = language_transform L,
      http_handler = True,
      http_note = not_available_note\<rparr>"

definition download_language_data ::
  "numerics \<Rightarrow> string \<Rightarrow> (string \<Rightarrow> reply) \<Rightarrow> world \<Rightarrow> world" where
  "download_language_data L base http w =
     say hispanic_only_notes (run_script (language_script L base) http w)"

definition health_insurance_transform :: "numerics \<Rightarrow> cell list \<Rightarrow> table \<Rightarrow> exn + table" where
  "health_insurance_transform L headers =
     chain
       [assign_to_numeric L (CStr ''B27001I_001E''),
        assign_to_numeric L (CStr ''B27001I_003E''),
        assign_to_numeric L (CStr ''B27001I_009E''),
        assign_rate L (CStr ''insurance_coverage_rate'')
          (CStr ''B27001I_003E'') (CStr ''B27001I_001E''),
        assign_rate L (CStr ''uninsured_rate'') (CStr ''B27001I_009E'') (CStr ''B27001I_001E''),
        (\<lambda>df. Inr (rename
           [(CStr ''B27001I_001E'', CStr ''total_population''),
            (CStr ''B27001I_003E'', CStr ''with_insurance''),
            (CStr ''B27001I_009E'', CStr ''without_insurance'')] df))]"

definition health_insurance_script :: "numerics \<Rightarrow> string \<Rightarrow> script" where
  "health_insurance_script L base =
     \<lparr>skip_existing = True,
      output_file =
        data_file base ''census_acs5_health_insurance'' ''acs5_health_insurance_'',
      url = census_url ''B27001I_001E,B27001I_003E,B27001I_009E'' ''state'',
      transform = health_insurance_transform L,
      http_handler = True,
      http_note = not_available_note\<rparr>"

definition download_health_insurance_data ::
  "numerics \<Rightarrow> string \<Rightarrow> (string \<Rightarrow> reply) \<Rightarrow> world \<Rightarrow> world" where
  "download_health_insurance_data L base http w =
     say hispanic_only_notes (run_script (health_insurance_script L base) http w)"


subsection \<open>download_hispanic_comparison_data.py\<close>

text \<open>The dictionary \<^verbatim>\<open>tables\<close>, in insertion order: key, name, variables.\<close>

definition tables :: "(string \<times> string \<times> string) list" where
  "tables =
     [(''poverty'', ''Poverty Status'', ''B17001I_001E,B17001I_002E''),
      (''housing_rent'', ''Median Gross Rent'', ''B25064I_001E''),
      (''housing_value'', ''Median Home Value'', ''B25077I_001E''),
      (''health_insurance'', ''Health Insurance Coverage'',
       ''B27001I_001E,B27001I_003E,B27001I_009E'')]"

definition hispanic_transform ::
  "numerics \<Rightarrow> string \<Rightarrow> cell list \<Rightarrow> table \<Rightarrow> exn + table" where
  "hispanic_transform L table_key headers =
     chain
       (map (assign_to_numeric L) (numeric_headers headers)
        @ (if table_key = ''poverty'' then
             [assign_rate L (CStr ''poverty_rate'') (CStr ''B17001I_002E'') (CStr ''B17001I_001E''),
              (\<lambda>df. Inr (rename
                 [(CStr ''B17001I_001E'', CStr ''total_population''),
                  (CStr ''B17001I_002E'', CStr ''below_poverty_level'')] df))]
           else if table_key = ''health_insurance'' then
             [assign_rate L (CStr ''insurance_coverage_rate'')
                (CStr ''B27001I_003E'') (CStr ''B27001I_001E''),
              assign_rate L (CStr ''uninsured_rate'')
                (CStr ''B27001I_009E'') (CStr ''B27001I_001E''),
              (\<lambda>df. Inr (rename
                 [(CStr ''B27001I_001E'', CStr ''total_population''),
                  (CStr ''B27001I_003E'', CStr ''with_insurance''),
                  (CStr ''B27001I_009E'', CStr ''without_insurance'')] df))]
           else if table_key = ''housing_rent'' then
             [(\<lambda>df. Inr (rename [(CStr ''B25064I_001E'', CStr ''median_gross_rent'')] df))]
           else if table_key = ''housing_value'' then
             [(\<lambda>df. Inr (rename [(CStr ''B25077I_001E'', CStr ''median_home_value'')] df))]
           else []))"

definition hispanic_script :: "numerics \<Rightarrow> string \<Rightarrow> string \<times> string \<times> string \<Rightarrow> script" where
  "hispanic_script L base t =
     (case t of (table_key, name, variables) \<Rightarrow>
        \<lparr>skip_existing = True,
         output_file =
           data_file base ''census_acs5_hispanic_comparison''
             (''acs5_hispanic_'' @ table_key @ ''_''),
         url = census_url variables ''state'',
         transform = hispanic_transform L table_key,
         http_handler = True,
         http_note = not_available_note\<rparr>)"

text \<open>\<^verbatim>\<open>for table_key, table_info in tables.items(): ... for year in years: ...\<close>\<close>

definition download_hispanic_comparison_data ::
  "numerics \<Rightarrow> string \<Rightarrow> (string \<Rightarrow> reply) \<Rightarrow> world \<Rightarrow> world" where
  "download_hispanic_comparison_data L base http w =
     say hispanic_only_notes
       (fold (\<lambda>t w'. run_script (hispanic_script L base t) http
                        (say [Note (''Downloading '' @ fst (snd t) @ '' data'')] w'))
          tables w)"

subsection \<open>download_occupation_industry_data.py\<close>

definition occ_url :: "int \<Rightarrow> string" where
  "occ_url = census_url ''B24010_001E'' ''state''"

definition ind_url :: "int \<Rightarrow> string" where
  "ind_url = census_url ''B24030_001E'' ''state''"

definition employed_transform :: "numerics \<Rightarrow> string \<Rightarrow> cell list \<Rightarrow> table \<Rightarrow> exn + table" where
  "employed_transform L var headers =
     chain
       [assign_to_numeric L (CStr var),
        (\<lambda>df. Inr (rename [(CStr var, CStr ''total_employed'')] df))]"

text \<open>Two requests in one \<^verbatim>\<open>try\<close>: the industry table is requested only after the
  occupation response has been decoded; both frames are built before either file is
  written.\<close>

definition occupation_industry_year ::
  "numerics \<Rightarrow> string \<Rightarrow> (string \<Rightarrow> reply) \<Rightarrow> int \<Rightarrow> world \<Rightarrow> world" where
  "occupation_industry_year L base http year w =
     (let occ_output = data_file base ''census_acs5_occupation_industry'' ''acs5_occupation_'' year;
          ind_output = data_file base ''census_acs5_occupation_industry'' ''acs5_industry_'' year;
          handle = (\<lambda>e. case e of HTTPError code \<Rightarrow> [HTTPErrorFor year code] | _ \<Rightarrow> [ErrorFor year e]);
          w1 = (say [Fetching year] w)\<lparr>requests := requests w @ [(year, occ_url year)]\<rparr>
      in case fetch_json (http (occ_url year)) of
           Inl e \<Rightarrow> say (handle e) w1
         | Inr occ_data \<Rightarrow>
             let w2 = w1\<lparr>requests := requests w1 @ [(year, ind_url year)]\<rparr>
             in case bind_exn (fetch_json (http (ind_url year))) (\<lambda>ind_data.
                     bind_exn (frame_of year (employed_transform L ''B24010_001E'') occ_data) (\<lambda>occ_df.
                     bind_exn (frame_of year (employed_transform L ''B24030_001E'') ind_data) (\<lambda>ind_df.
                       Inr (occ_df, ind_df)))) of
                  Inl e \<Rightarrow> say (handle e) w2
                | Inr (occ_df, ind_df) \<Rightarrow>
                    say [Saved occ_output, Saved ind_output]
                      (w2\<lparr>files := (files w2)(occ_output \<mapsto> occ_df, ind_output \<mapsto> ind_df)\<rparr>))"

definition download_occupation_industry_data ::
  "numerics \<Rightarrow> string \<Rightarrow> (string \<Rightarrow> reply) \<Rightarrow> world \<Rightarrow> world" where
  "download_occupation_industry_data L base http w =
     fold (occupation_industry_year L base http) years w"

text \<open>The same iteration on a disk where a write can fail:
  \<^verbatim>\<open>occ_df.to_csv(occ_output); ind_df.to_csv(ind_output)\<close>, the second call being
  reached only if the first returns.\<close>

definition occ_output :: "string \<Rightarrow> int \<Rightarrow> string" where
  "occ_output base = data_file base ''census_acs5_occupation_industry'' ''acs5_occupation_''"

definition ind_output :: "string \<Rightarrow> int \<Rightarrow> string" where
  "ind_output base = data_file base ''census_acs5_occupation_industry'' ''acs5_industry_''"

definition occupation_industry_handler :: "int \<Rightarrow> exn \<Rightarrow> msg list" where
  "occupation_industry_handler year e =
     (case e of HTTPError code \<Rightarrow> [HTTPErrorFor year code] | _ \<Rightarrow> [ErrorFor year e])"

definition occupation_industry_year_io ::
  "csv_writer \<Rightarrow> numerics \<Rightarrow> string \<Rightarrow> (string \<Rightarrow> reply) \<Rightarrow> int \<Rightarrow> world \<Rightarrow> world" where
  "occupation_industry_year_io wr L base http year w =
     (let handle = occupation_industry_handler year;
          w1 = (say [Fetching year] w)\<lparr>requests := requests w @ [(year, occ_url year)]\<rparr>
      in case fetch_json (http (occ_url year)) of
           Inl e \<Rightarrow> say (handle e) w1
         | Inr occ_data \<Rightarrow>
             let w2 = w1\<lparr>requests := requests w1 @ [(year, ind_url year)]\<rparr>
             in case bind_exn (fetch_json (http (ind_url year))) (\<lambda>ind_data.
                     bind_exn (frame_of year (employed_transform L ''B24010_001E'') occ_data) (\<lambda>occ_df.
                     bind_exn (frame_of year (employed_transform L ''B24030_001E'') ind_data) (\<lambda>ind_df.
                       Inr (occ_df, ind_df)))) of
                  Inl e \<Rightarrow> say (handle e) w2
                | Inr (occ_df, ind_df) \<Rightarrow>
                    (case wr (occ_output base year) (files w2 (occ_output base year)) occ_df of
                       Write_fails left \<Rightarrow>
                         say (handle OSError)
                           (w2\<lparr>files := (files w2)(occ_output base year := left)\<rparr>)
                     | Written \<Rightarrow>
                         let w3 = w2\<lparr>files := (files w2)(occ_output base year \<mapsto> occ_df)\<rparr>
                         in case wr (ind_output base year) (files w3 (ind_output base year)) ind_df of
                              Write_fails left \<Rightarrow>
                                say (handle OSError)
                                  (w3\<lparr>files := (files w3)(ind_output base year := left)\<rparr>)
                            | Written \<Rightarrow>
                                say [Saved (occ_output base year), Saved (ind_output base year)]
                                  (w3\<lparr>files := (files w3)(ind_output base year \<mapsto> ind_df)\<rparr>)))"

definition download_occupation_industry_data_io ::
  "csv_writer \<Rightarrow> numerics \<Rightarrow> string \<Rightarrow> (string \<Rightarrow> reply) \<Rightarrow> world \<Rightarrow> world" where
  "download_occupation_industry_data_io wr L base http w =
     fold (occupation_industry_year_io wr L base http) years w"

section \<open>download_ipums_data.py\<close>

text \<open>The IPUMS service as the script meets it, one extract per census year:
  whether \<^verbatim>\<open>submit_extract\<close> returns, what the \<open>k\<close>-th call of \<^verbatim>\<open>extract_status\<close>
  yields, whether \<^verbatim>\<open>download_extract\<close> returns, and what \<^verbatim>\<open>process_ipums_data\<close> makes of
  the downloaded files: the aggregated table it hands to \<^verbatim>\<open>to_csv\<close>, or nothing (no data
  file, no DDI file, no Puerto Rico-born record, or an error while reading, each of
  which that function reports itself and returns). \<^verbatim>\<open>process_ipums_data\<close> has a \<^verbatim>\<open>try\<close> of
  its own around the reading, the aggregation and the \<^verbatim>\<open>to_csv\<close>, so that a failing
  write is reported there and the function returns to the loop. The state keeps the CSV
  files the scripts write, not the raw extract \<^verbatim>\<open>download_extract\<close> stores; of the lines
  printed, those of the polling loop are left out.\<close>

datatype extract_status = Completed | Failed | Other_status

datatype poll = Status extract_status | Poll_raises

record ipums_api =
  submit_ok :: "int \<Rightarrow> bool"
  status_at :: "int \<Rightarrow> nat \<Rightarrow> poll"
  download_ok :: "int \<Rightarrow> bool"
  aggregated :: "int \<Rightarrow> table option"

datatype wait_result = Ready | Extract_failed | Timed_out | Raised

text \<open>\<^verbatim>\<open>
  max_wait = 300; wait_time = 0
  while wait_time < max_wait:
      status = ipums.extract_status(extract)
      if status == 'completed': break
      elif status == 'failed': return
      time.sleep(10); wait_time += 10
  if wait_time >= max_wait: ... continue
  \<close>\<close>

function wait_for_extract :: "ipums_api \<Rightarrow> int \<Rightarrow> nat \<Rightarrow> wait_result" where
  "wait_for_extract api year wait_time =
     (if wait_time < 300 then
        (case status_at api year (wait_time div 10) of
           Poll_raises \<Rightarrow> Raised
         | Status Completed \<Rightarrow> Ready
         | Status Failed \<Rightarrow> Extract_failed
         | Status Other_status \<Rightarrow> wait_for_extract api year (wait_time + 10))
      else Timed_out)"
  by pat_completeness auto
termination
  by (relation "measure (\<lambda>(api, year, wait_time). 300 - wait_time)") auto

text \<open>How one iteration of \<^verbatim>\<open>for year, config in samples_config.items()\<close> ends: the loop
  goes on, or the function returns.\<close>

datatype 'a flow = Next 'a | Return 'a

definition samples :: "(int \<times> string) list" where
  "samples = [(1960, ''us1960b''), (1970, ''us1970a''), (1980, ''us1980a'')]"

definition ipums_year ::
  "csv_writer \<Rightarrow> ipums_api \<Rightarrow> string \<Rightarrow> int \<times> string \<Rightarrow> world \<Rightarrow> world flow" where
  "ipums_year wr api base ys w =
     (case ys of (year, sample) \<Rightarrow>
        let output_file = base @ ''/data/ipums_historical/ipums_puerto_rican_pop_''
              @ str_int year @ ''.csv'';
            w1 = (say [Note ''Processing Census Data'', Note ''Submitting extract request''] w)
                   \<lparr>requests := requests w @ [(year, sample)]\<rparr>
        in if \<not> submit_ok api year then Next (say [ErrorFor year IpumsApiError] w1)
           else case wait_for_extract api year 0 of
                  Raised \<Rightarrow> Next (say [ErrorFor year IpumsApiError] w1)
                | Extract_failed \<Rightarrow> Return (say [Note ''Extract failed!''] w1)
                | Timed_out \<Rightarrow> Next (say [Note ''Timeout waiting for extract.''] w1)
                | Ready \<Rightarrow>
                    if \<not> download_ok api year then Next (say [ErrorFor year IpumsApiError] w1)
                    else (case aggregated api year of
                            None \<Rightarrow> Next (say [Note ''Warning''] w1)
                          | Some t \<Rightarrow>
                              (case wr output_file (files w1 output_file) t of
                                 Written \<Rightarrow>
                                   Next (say [Saved output_file]
                                           (w1\<lparr>files := (files w1)(output_file \<mapsto> t)\<rparr>))
                               | Write_fails left \<Rightarrow>
                                   Next (say [Note ''Error processing microdata'']
                                           (w1\<lparr>files := (files w1)(output_file := left)\<rparr>)))))"

fun ipums_loop ::
  "csv_writer \<Rightarrow> ipums_api \<Rightarrow> string \<Rightarrow> (int \<times> string) list \<Rightarrow> world \<Rightarrow> world" where
  "ipums_loop wr api base [] w = w"
| "ipums_loop wr api base (ys # rest) w =
     (case ipums_year wr api base ys w of
        Return w' \<Rightarrow> w'
      | Next w' \<Rightarrow> ipums_loop wr api base rest w')"

definition download_ipums_data ::
  "csv_writer \<Rightarrow> string \<Rightarrow> ipums_api \<Rightarrow> string \<Rightarrow> world \<Rightarrow> world" where
  "download_ipums_data wr api_key api base w =
     (if api_key = ''YOUR_API_KEY_HERE''
      then say [Note ''ERROR: Please set IPUMS_API_KEY environment variable or update the script''] w
      else ipums_loop wr api base samples w)"


section \<open>weighted_median (download_ipums_pr_specific_data.py)\<close>

text \<open>The two Series share their index (both are columns of one filtered frame), so
  they are a list of pairs of a value and its weight.
  \<^verbatim>\<open>
  sorted_indices = values.sort_values().index
  sorted_values = values.loc[sorted_indices]
  sorted_weights = weights.loc[sorted_indices]
  cum_weights = sorted_weights.cumsum()
  total_weight = sorted_weights.sum()
  median_index = cum_weights[cum_weights >= total_weight / 2].index[0]
  return sorted_values.loc[median_index]
  \<close>
  The weights are float64, each represented by the rational number it denotes (they are
  finite). \<^verbatim>\<open>cumsum\<close> copies the first weight and adds the others one by one, rounding
  every sum with the rounding \<open>rd\<close> of the machine. \<^verbatim>\<open>sum\<close> is numpy's, which adds in an
  order of its own; it is the parameter \<open>fsum\<close>. The quotient by two is rounded like any
  other result. Indexing the empty selection with \<^verbatim>\<open>[0]\<close> raises \<^verbatim>\<open>IndexError\<close>. The
  order \<^verbatim>\<open>sort_values\<close> gives to equal values is not fixed by pandas; \<open>sort_key\<close> keeps
  them in their input order.\<close>

fun cumsum_from :: "(rat \<Rightarrow> rat) \<Rightarrow> rat \<Rightarrow> rat list \<Rightarrow> rat list" where
  "cumsum_from rd acc [] = []"
| "cumsum_from rd acc (w # ws) = rd (acc + w) # cumsum_from rd (rd (acc + w)) ws"

fun cumsum :: "(rat \<Rightarrow> rat) \<Rightarrow> rat list \<Rightarrow> rat list" where
  "cumsum rd [] = []"
| "cumsum rd (w # ws) = w # cumsum_from rd w ws"

definition weighted_median ::
  "(rat \<Rightarrow> rat) \<Rightarrow> (rat list \<Rightarrow> rat) \<Rightarrow> ('a::linorder \<times> rat) list \<Rightarrow> exn + 'a" where
  "weighted_median rd fsum vw =
     (let sorted = sort_key fst vw;
          sorted_values = map fst sorted;
          sorted_weights = map snd sorted;
          cum_weights = cumsum rd sorted_weights;
          total_weight = fsum sorted_weights
      in case filter (\<lambda>(v, c). c \<ge> rd (total_weight / 2)) (zip sorted_values cum_weights) of
           [] \<Rightarrow> Inl IndexError
         | (v, c) # _ \<Rightarrow> Inr v)"

text \<open>The sum from the left, starting from zero: what numpy computes for an array of
  fewer than eight elements.\<close>

definition running_sum :: "(rat \<Rightarrow> rat) \<Rightarrow> rat list \<Rightarrow> rat" where
  "running_sum rd ws = foldl (\<lambda>acc w. rd (acc + w)) 0 ws"

text \<open>IEEE-754 binary64 rounding to nearest, ties to even, of a rational number: the
  nearest multiple of the unit in the last place, which is \<open>2 ^ (e - 52)\<close> for a number
  between \<open>2 ^ e\<close> and \<open>2 ^ (e + 1)\<close>. The exponent is not bounded here: there is neither
  overflow nor gradual underflow.\<close>

fun bit_length :: "nat \<Rightarrow> nat" where
  "bit_length n = (if n = 0 then 0 else Suc (bit_length (n div 2)))"

definition pow2 :: "int \<Rightarrow> rat" where
  "pow2 e = (if 0 \<le> e then 2 ^ nat e else 1 / 2 ^ nat (- e))"

definition exponent :: "rat \<Rightarrow> int" where
  "exponent q =
     (if 1 \<le> q then int (bit_length (nat \<lfloor>q\<rfloor>)) - 1
      else - int (bit_length (nat \<lceil>1 / q\<rceil> - 1)))"

definition binary64 :: "rat \<Rightarrow> rat" where
  "binary64 q =
     (if q = 0 then 0
      else let ulp = pow2 (exponent \<bar>q\<bar>) / 2 ^ 52 in of_int (rint (q / ulp)) * ulp)"

section \<open>The visualization scripts\<close>

text \<open>The CSV files on disk, each with the frame \<^verbatim>\<open>pd.read_csv\<close> loads from it (whose
  column labels are distinct: \<^verbatim>\<open>read_csv\<close> renames repeated ones). Paths are distinct.\<close>

type_synonym disk = "(string \<times> table) list"

definition path_exists :: "disk \<Rightarrow> string \<Rightarrow> bool" where
  "path_exists d p = (map_of d p \<noteq> None)"

definition read_csv :: "disk \<Rightarrow> string \<Rightarrow> exn + table" where
  "read_csv d p = (case map_of d p of None \<Rightarrow> Inl FileNotFoundError | Some t \<Rightarrow> Inr t)"

text \<open>\<^verbatim>\<open>glob.glob(os.path.join(dir, pre + '*' + suf))\<close>: the files directly in \<open>dir\<close>
  whose name starts with \<open>pre\<close> and ends with \<open>suf\<close>; a pattern starting with \<^verbatim>\<open>*\<close> does
  not match a name starting with a dot.\<close>

definition glob_match :: "string \<Rightarrow> string \<Rightarrow> string \<Rightarrow> string \<Rightarrow> bool" where
  "glob_match dir pre suf p =
     (let n = length dir + 1; name = drop n p
      in take n p = dir @ ''/'' \<and> CHR ''/'' \<notin> set name
         \<and> length pre + length suf \<le> length name
         \<and> take (length pre) name = pre
         \<and> drop (length name - length suf) name = suf
         \<and> (pre = [] \<longrightarrow> name \<noteq> [] \<longrightarrow> hd name \<noteq> CHR ''.''))"

definition glob :: "disk \<Rightarrow> string \<Rightarrow> string \<Rightarrow> string \<Rightarrow> string list" where
  "glob d dir pre suf = filter (glob_match dir pre suf) (map fst d)"

text \<open>What a script leaves behind: the HTML files it wrote and what it printed. Of a
  chart only the frame handed to the choropleth is kept; the drawing is plotly's.\<close>

datatype figure = Choropleth table | Chart string

type_synonym outcome = "(string \<times> figure) list \<times> msg list"

text \<open>\<^verbatim>\<open>pd.concat(df_list, ignore_index=True)\<close>: the union of the columns in order of first
  appearance, a missing cell being NaN.\<close>

definition first_seen :: "'a list \<Rightarrow> 'a list" where
  "first_seen xs = rev (remdups (rev xs))"

definition lookup_cell :: "cell list \<Rightarrow> cell list \<Rightarrow> cell \<Rightarrow> cell" where
  "lookup_cell cols r c = (case map_of (zip cols r) c of None \<Rightarrow> CNum NaN | Some v \<Rightarrow> v)"

definition concat_frames :: "table list \<Rightarrow> table" where
  "concat_frames dfs =
     (let cols = first_seen (concat (map columns dfs))
      in \<lparr>columns = cols,
          rows = concat (map (\<lambda>df. map (\<lambda>r. map (lookup_cell (columns df) r) cols) (rows df)) dfs)\<rparr>)"

text \<open>\<^verbatim>\<open>df[mask]\<close> for a boolean Series.\<close>

definition mask_rows :: "bool list \<Rightarrow> table \<Rightarrow> table" where
  "mask_rows keep df = df\<lparr>rows := map snd (filter fst (zip keep (rows df)))\<rparr>"

definition isna :: "cell \<Rightarrow> bool" where
  "isna c \<longleftrightarrow> c = CNull \<or> c = CNum NaN"

text \<open>\<^verbatim>\<open>df.dropna(subset=[c])\<close>\<close>

definition dropna :: "cell \<Rightarrow> table \<Rightarrow> exn + table" where
  "dropna c df = bind_exn (getitem c df) (\<lambda>vs. Inr (mask_rows (map (\<lambda>v. \<not> isna v) vs) df))"

text \<open>\<^verbatim>\<open>df.sort_values(c)\<close>, ascending, missing values last. A column of numbers is
  sorted by value and a column of strings as Python compares strings (by code point,
  which is the order of the bytes of their UTF-8 encoding); a column that holds both
  numbers and strings raises \<^verbatim>\<open>TypeError\<close>, and a label that names no column or several
  raises as well. The order pandas gives to rows of equal key is not fixed; \<open>sort_key\<close>
  keeps them in their order.\<close>

fun is_number :: "cell \<Rightarrow> bool" where
  "is_number (CInt i) = True"
| "is_number (CNum x) = True"
| "is_number c = False"

fun is_text :: "cell \<Rightarrow> bool" where
  "is_text (CStr s) = True"
| "is_text c = False"

fun sort_rank :: "cell \<Rightarrow> nat \<times> rat" where
  "sort_rank (CInt i) = (1, of_int i)"
| "sort_rank (CNum NInf) = (0, 0)"
| "sort_rank (CNum (Fin q)) = (1, q)"
| "sort_rank (CNum PInf) = (2, 0)"
| "sort_rank c = (3, 0)"

fun text_rank :: "cell \<Rightarrow> nat \<times> string" where
  "text_rank (CStr s) = (0, s)"
| "text_rank c = (1, [])"

definition sort_values :: "cell \<Rightarrow> table \<Rightarrow> exn + table" where
  "sort_values c df =
     bind_exn (col_index c df) (\<lambda>i.
       let present = filter (\<lambda>v. \<not> isna v) (map (\<lambda>r. cell_at r i) (rows df))
       in if list_all is_number present
          then Inr (df\<lparr>rows := sort_key (\<lambda>r. sort_rank (cell_at r i)) (rows df)\<rparr>)
          else if list_all is_text present
          then Inr (df\<lparr>rows := sort_key (\<lambda>r. text_rank (cell_at r i)) (rows df)\<rparr>)
          else Inl TypeError)"

subsection \<open>generate_map.py\<close>

definition us_state_to_abbrev :: "(string \<times> string) list" where
  "us_state_to_abbrev =
     [(''Alabama'', ''AL''), (''Alaska'', ''AK''), (''Arizona'', ''AZ''), (''Arkansas'', ''AR''),
      (''California'', ''CA''), (''Colorado'', ''CO''), (''Connecticut'', ''CT''),
      (''Delaware'', ''DE''), (''Florida'', ''FL''), (''Georgia'', ''GA''), (''Hawaii'', ''HI''),
      (''Idaho'', ''ID''), (''Illinois'', ''IL''), (''Indiana'', ''IN''), (''Iowa'', ''IA''),
      (''Kansas'', ''KS''), (''Kentucky'', ''KY''), (''Louisiana'', ''LA''), (''Maine'', ''ME''),
      (''Maryland'', ''MD''), (''Massachusetts'', ''MA''), (''Michigan'', ''MI''),
      (''Minnesota'', ''MN''), (''Mississippi'', ''MS''), (''Missouri'', ''MO''),
      (''Montana'', ''MT''), (''Nebraska'', ''NE''), (''Nevada'', ''NV''),
      (''New Hampshire'', ''NH''), (''New Jersey'', ''NJ''), (''New Mexico'', ''NM''),
      (''New York'', ''NY''), (''North Carolina'', ''NC''), (''North Dakota'', ''ND''),
      (''Ohio'', ''OH''), (''Oklahoma'', ''OK''), (''Oregon'', ''OR''), (''Pennsylvania'', ''PA''),
      (''Rhode Island'', ''RI''), (''South Carolina'', ''SC''), (''South Dakota'', ''SD''),
      (''Tennessee'', ''TN''), (''Texas'', ''TX''), (''Utah'', ''UT''), (''Vermont'', ''VT''),
      (''Virginia'', ''VA''), (''Washington'', ''WA''), (''West Virginia'', ''WV''),
      (''Wisconsin'', ''WI''), (''Wyoming'', ''WY''), (''District of Columbia'', ''DC''),
      (''Puerto Rico'', ''PR'')]"

text \<open>\<^verbatim>\<open>full_df['State'].map(us_state_to_abbrev)\<close>, one cell at a time.\<close>

fun state_code :: "cell \<Rightarrow> cell" where
  "state_code (CStr name) =
     (case map_of us_state_to_abbrev name of None \<Rightarrow> CNum NaN | Some code \<Rightarrow> CStr code)"
| "state_code c = CNum NaN"

text \<open>The frame handed to \<^verbatim>\<open>px.choropleth\<close>.\<close>

definition map_frame :: "table list \<Rightarrow> exn + table" where
  "map_frame df_list =
     (let full_df = rename [(CStr ''B03001_005E'', CStr ''Population''),
                            (CStr ''NAME'', CStr ''State''), (CStr ''year'', CStr ''Year'')]
                      (concat_frames df_list)
      in bind_exn (getitem (CStr ''State'') full_df) (\<lambda>states.
           let full_df = setitem (CStr ''StateCode'') (map state_code states) full_df
           in bind_exn (getitem (CStr ''State'') full_df) (\<lambda>states.
              bind_exn (dropna (CStr ''StateCode'')
                          (mask_rows (map (\<lambda>s. s \<noteq> CStr ''Puerto Rico'') states) full_df))
                (sort_values (CStr ''Year'')))))"

text \<open>The argument \<^verbatim>\<open>range_color=(0, map_df['Population'].max())\<close> is evaluated before the
  call of \<^verbatim>\<open>px.choropleth\<close> and raises \<^verbatim>\<open>KeyError\<close> when no column has that label. From
  the call on the function is plotly's: the frame is handed over, the figure is written
  and the last line is printed.\<close>

definition generate_map :: "string \<Rightarrow> disk \<Rightarrow> exn + outcome" where
  "generate_map base d =
     (let csv_files = glob d (base @ ''/data/census_acs5'') [] ''.csv''
      in bind_exn (traverse (read_csv d) csv_files) (\<lambda>df_list.
           if df_list = [] then Inr ([], [Note ''No data found in data/census_acs5/''])
           else
             bind_exn (map_frame df_list) (\<lambda>map_df.
               if CStr ''Population'' \<notin> set (columns map_df)
               then Inl (KeyError (CStr ''Population''))
               else Inr ([(base @ ''/docs/graph7_map.html'', Choropleth map_df)],
                         [Note ''Map saved'']))))"

subsection \<open>generate_improved_visualizations.py: generate_population_pyramid\<close>

text \<open>The file is read without a check (the next function of the same file,
  \<^verbatim>\<open>generate_economic_scatter_plot\<close>, begins with
  \<^verbatim>\<open>if not os.path.exists(combined_file): print(...); return\<close>); the columns the function
  then uses must be there. The pyramid itself is not modelled.\<close>

definition generate_population_pyramid :: "disk \<Rightarrow> exn + outcome" where
  "generate_population_pyramid d =
     bind_exn (read_csv d ''data/usa_00001.csv'') (\<lambda>df.
     bind_exn (traverse (\<lambda>c. getitem (CStr c) df) [''BPL'', ''SEX'', ''AGE'', ''YEAR'', ''PERWT'']) (\<lambda>_.
       Inr ([(''docs/graph_population_pyramid.html'', Chart ''Population Pyramid'')],
            [Note ''Generated population pyramid''])))"

subsection \<open>generate_new_data_visualizations.py: generate_migration_economic_correlation\<close>

definition generate_migration_economic_correlation :: "string \<Rightarrow> disk \<Rightarrow> exn + outcome" where
  "generate_migration_economic_correlation base d =
     (let combined_file = base @ ''/data/puerto_rico_economic/pr_economic_combined.csv''
      in if \<not> path_exists d combined_file
         then Inr ([], [Note ''Puerto Rico economic data not found. Skipping correlation visualization.''])
         else
           bind_exn (read_csv d combined_file) (\<lambda>pr_econ_df.
             let pop_files = glob d (base @ ''/data/census_acs5'') ''acs5_puerto_rican_pop_'' ''.csv''
             in if pop_files = []
                then Inr ([], [Note ''Puerto Rican population data not found. Skipping correlation visualization.''])
                else
                  bind_exn (traverse (read_csv d) pop_files) (\<lambda>all_pop.
                    let pop_df = concat_frames all_pop
                    in bind_exn (getitem (CStr ''B03001_005E'') pop_df) (\<lambda>_.
                       bind_exn (getitem (CStr ''year'') pop_df) (\<lambda>_.
                       bind_exn (getitem (CStr ''year'') pr_econ_df) (\<lambda>_.
                         if CStr ''unemployment_rate'' \<in> set (columns pr_econ_df)
                         then Inr ([(''docs/graph_migration_economic_correlation.html'',
                                     Chart ''Puerto Rico Economic Conditions vs Mainland Migration'')],
                                   [Note ''Generated migration-economic correlation visualization''])
                         else Inr ([], [])))))))"


section \<open>Notions used in the statements\<close>

text \<open>What an iteration of the year loop does depends on the state only through the
  output file of its year: the file afterwards, the requests sent, the lines printed.\<close>

definition file_after :: "script \<Rightarrow> (string \<Rightarrow> reply) \<Rightarrow> int \<Rightarrow> table option \<Rightarrow> table option" where
  "file_after s http year old =
     (if skip_existing s \<and> old \<noteq> None then old
      else case try_year s http year of Inr df \<Rightarrow> Some df | Inl e \<Rightarrow> old)"

definition year_requests :: "script \<Rightarrow> int \<Rightarrow> table option \<Rightarrow> (int \<times> string) list" where
  "year_requests s year old =
     (if skip_existing s \<and> old \<noteq> None then [] else [(year, url s year)])"

definition year_output :: "script \<Rightarrow> (string \<Rightarrow> reply) \<Rightarrow> int \<Rightarrow> table option \<Rightarrow> msg list" where
  "year_output s http year old =
     (if skip_existing s \<and> old \<noteq> None then [AlreadyExists year]
      else Fetching year #
           (case try_year s http year of
              Inr df \<Rightarrow> [Saved (output_file s year)]
            | Inl e \<Rightarrow> handler s year e))"

text \<open>The same three on a disk where a write can fail, and the exception the \<^verbatim>\<open>try\<close> of
  an iteration raises, if any: that of the fetch or the processing, or that of the
  write.\<close>

definition file_after_io ::
  "csv_writer \<Rightarrow> script \<Rightarrow> (string \<Rightarrow> reply) \<Rightarrow> int \<Rightarrow> table option \<Rightarrow> table option" where
  "file_after_io wr s http year old =
     (if skip_existing s \<and> old \<noteq> None then old
      else case try_year s http year of
             Inl e \<Rightarrow> old
           | Inr df \<Rightarrow>
               (case wr (output_file s year) old df of
                  Written \<Rightarrow> Some df
                | Write_fails left \<Rightarrow> left))"

definition year_error ::
  "csv_writer \<Rightarrow> script \<Rightarrow> (string \<Rightarrow> reply) \<Rightarrow> int \<Rightarrow> table option \<Rightarrow> exn option" where
  "year_error wr s http year old =
     (case try_year s http year of
        Inl e \<Rightarrow> Some e
      | Inr df \<Rightarrow>
          (case wr (output_file s year) old df of
             Written \<Rightarrow> None
           | Write_fails left \<Rightarrow> Some OSError))"

definition year_output_io ::
  "csv_writer \<Rightarrow> script \<Rightarrow> (string \<Rightarrow> reply) \<Rightarrow> int \<Rightarrow> table option \<Rightarrow> msg list" where
  "year_output_io wr s http year old =
     (if skip_existing s \<and> old \<noteq> None then [AlreadyExists year]
      else Fetching year #
           (case year_error wr s http year old of
              None \<Rightarrow> [Saved (output_file s year)]
            | Some e \<Rightarrow> handler s year e))"

text \<open>The body of the \<^verbatim>\<open>try\<close> of the occupation and industry script before its two
  \<^verbatim>\<open>to_csv\<close> calls.\<close>

definition occupation_industry_frames ::
  "numerics \<Rightarrow> (string \<Rightarrow> reply) \<Rightarrow> int \<Rightarrow> exn + table \<times> table" where
  "occupation_industry_frames L http year =
     bind_exn (fetch_json (http (occ_url year))) (\<lambda>occ_data.
     bind_exn (fetch_json (http (ind_url year))) (\<lambda>ind_data.
     bind_exn (frame_of year (employed_transform L ''B24010_001E'') occ_data) (\<lambda>occ_df.
     bind_exn (frame_of year (employed_transform L ''B24030_001E'') ind_data) (\<lambda>ind_df.
       Inr (occ_df, ind_df)))))"

text \<open>The scripts that are instances of the one loop.\<close>

definition census_api_scripts :: "numerics \<Rightarrow> string \<Rightarrow> script list" where
  "census_api_scripts L base =
     [census_script base, county_script base, poverty_script L base, housing_script L base,
      year_of_arrival_script L base, commuting_script L base, language_script L base,
      health_insurance_script L base]
     @ map (hispanic_script L base) tables"

text \<open>A well-formed frame: every row is as long as the header. A year column: there is
  a column labelled \<open>year\<close>, and every such column holds the year in every row.\<close>

definition wf_table :: "table \<Rightarrow> bool" where
  "wf_table df \<longleftrightarrow> list_all (\<lambda>r. length r = length (columns df)) (rows df)"

definition year_column :: "int \<Rightarrow> table \<Rightarrow> bool" where
  "year_column y df \<longleftrightarrow>
     CStr ''year'' \<in> set (columns df)
     \<and> list_all (\<lambda>r. list_all (\<lambda>i. columns df ! i = CStr ''year'' \<longrightarrow> cell_at r i = CInt y)
                      [0..<length (columns df)]) (rows df)"

definition frame_inv :: "int \<Rightarrow> nat \<Rightarrow> table \<Rightarrow> bool" where
  "frame_inv y n df \<longleftrightarrow> wf_table df \<and> year_column y df \<and> length (rows df) = n"

text \<open>The header after an assignment to column \<open>c\<close>, and the renaming of the poverty
  script.\<close>

definition with_column :: "cell \<Rightarrow> cell list \<Rightarrow> cell list" where
  "with_column c cols = (if c \<in> set cols then cols else cols @ [c])"

definition poverty_names :: "cell \<Rightarrow> cell" where
  "poverty_names c =
     (if c = CStr ''B17001_001E'' then CStr ''total_population''
      else if c = CStr ''B17001_002E'' then CStr ''below_poverty_level'' else c)"

text \<open>The total weight, summed exactly, of the entries whose value is at most \<open>x\<close>.\<close>

definition weight_upto :: "'a::linorder \<Rightarrow> ('a \<times> rat) list \<Rightarrow> rat" where
  "weight_upto x vw = sum_list (map snd (filter (\<lambda>(v, w). v \<le> x) vw))"


text \<open>The extract of a year fails: it was submitted, and a poll within the waiting time
  answered \<^verbatim>\<open>'failed'\<close> before any poll raised or answered \<^verbatim>\<open>'completed'\<close>.\<close>

definition extract_fails :: "ipums_api \<Rightarrow> int \<Rightarrow> bool" where
  "extract_fails api year \<longleftrightarrow> submit_ok api year \<and> wait_for_extract api year 0 = Extract_failed"

section \<open>Concrete inputs\<close>

text \<open>One instance of the numeric side: exact arithmetic, and a parser that accepts
  the unsigned whole numbers the Census API sends as strings.\<close>

definition digit_val :: "char \<Rightarrow> nat option" where
  "digit_val c = (if c \<in> set ''0123456789'' then Some (of_char c - 48) else None)"

fun parse_digits :: "nat \<Rightarrow> string \<Rightarrow> nat option" where
  "parse_digits acc [] = Some acc"
| "parse_digits acc (c # cs) =
     (case digit_val c of None \<Rightarrow> None | Some v \<Rightarrow> parse_digits (10 * acc + v) cs)"

definition whole_number :: "string \<Rightarrow> f64 option" where
  "whole_number s =
     (if s = [] then None else map_option (\<lambda>n. Fin (of_nat n)) (parse_digits 0 s))"

definition exact_numerics :: numerics where
  "exact_numerics = \<lparr>rnd = (\<lambda>x. x), num_of_str = whole_number\<rparr>"

text \<open>Four households, out of order: their rents and their household weights, which
  are the doubles written \<^verbatim>\<open>0.5\<close>, \<^verbatim>\<open>0.1\<close>, \<^verbatim>\<open>0.1\<close>, \<^verbatim>\<open>0.5\<close>.\<close>

definition rents :: "(int \<times> rat) list" where
  "rents = [(950, 1 / 2), (1200, binary64 (1 / 10)), (800, binary64 (1 / 10)), (900, 1 / 2)]"

text \<open>A fresh machine; one without network; one whose disk already holds the county
  file of 2012.\<close>

definition fresh :: world where
  "fresh = \<lparr>files = Map.empty, requests = [], stdout = []\<rparr>"

definition no_network :: "string \<Rightarrow> reply" where
  "no_network u = NoResponse"

definition county_table_2012 :: table where
  "county_table_2012 =
     \<lparr>columns = [CStr ''NAME'', CStr ''B03001_005E'', CStr ''state'', CStr ''county'', CStr ''year''],
      rows = [[CStr ''Autauga County, Alabama'', CStr ''153'', CStr ''01'', CStr ''001'', CInt 2012]]\<rparr>"

definition county_2012_on_disk :: world where
  "county_2012_on_disk =
     \<lparr>files = [output_file (county_script ''/repo'') 2012 \<mapsto> county_table_2012],
      requests = [], stdout = []\<rparr>"

text \<open>A disk on which every write succeeds, and a full disk, on which every write fails
  and leaves nothing at the path.\<close>

definition writes_succeed :: csv_writer where
  "writes_succeed p old df = Written"

definition full_disk :: csv_writer where
  "full_disk p old df = Write_fails None"

text \<open>A server that answers every request with an empty JSON array; a census response
  in which one state appears twice; a well-formed poverty response; a poverty response
  whose only row has an empty universe but five people below the poverty level.\<close>

definition empty_array_server :: "string \<Rightarrow> reply" where
  "empty_array_server u = Response 200 (Some [])"

definition duplicate_rows_server :: "string \<Rightarrow> reply" where
  "duplicate_rows_server u =
     Response 200 (Some
       [[CStr ''NAME'', CStr ''B03001_005E'', CStr ''state''],
        [CStr ''Alabama'', CStr ''12225'', CStr ''01''],
        [CStr ''Alabama'', CStr ''12225'', CStr ''01'']])"

definition poverty_server :: "string \<Rightarrow> reply" where
  "poverty_server u =
     Response 200 (Some
       [[CStr ''NAME'', CStr ''B17001_001E'', CStr ''B17001_002E'', CStr ''state''],
        [CStr ''Alabama'', CStr ''8'', CStr ''1'', CStr ''01'']])"


text \<open>A poverty frame after \<^verbatim>\<open>pd.to_numeric\<close>: one ordinary row, one row of zeros.\<close>

definition poverty_frame :: table where
  "poverty_frame =
     \<lparr>columns = [CStr ''NAME'', CStr ''B17001_001E'', CStr ''B17001_002E'', CStr ''state''],
      rows = [[CStr ''Alabama'', CNum (Fin 8), CNum (Fin 1), CStr ''01''],
              [CStr ''Alaska'', CNum (Fin 0), CNum (Fin 0), CStr ''02'']]\<rparr>"

text \<open>An IPUMS service whose extract of 1960 fails at the first poll, while the other
  extracts complete at once.\<close>

definition failing_1960 :: ipums_api where
  "failing_1960 =
     \<lparr>submit_ok = (\<lambda>year. True),
      status_at = (\<lambda>year k. Status (if year = 1960 then Failed else Completed)),
      download_ok = (\<lambda>year. True),
      aggregated = (\<lambda>year. None)\<rparr>"

text \<open>A disk with one census file: a state, the island, and a name the mapping does
  not know.\<close>

definition census_disk :: disk where
  "census_disk =
     [(''/repo/data/census_acs5/acs5_puerto_rican_pop_2010.csv'',
       \<lparr>columns = [CStr ''NAME'', CStr ''B03001_005E'', CStr ''state'', CStr ''year''],
        rows = [[CStr ''Alabama'', CInt 12225, CInt 1, CInt 2010],
                [CStr ''Puerto Rico'', CInt 3554642, CInt 72, CInt 2010],
                [CStr ''Guam'', CInt 100, CInt 66, CInt 2010]]\<rparr>)]"

text \<open>The same file read with a \<open>year\<close> column of strings, out of order.\<close>

definition census_disk_text_years :: disk where
  "census_disk_text_years =
     [(''/repo/data/census_acs5/acs5_puerto_rican_pop_2010.csv'',
       \<lparr>columns = [CStr ''NAME'', CStr ''B03001_005E'', CStr ''state'', CStr ''year''],
        rows = [[CStr ''Alabama'', CInt 12225, CInt 1, CStr ''2011 (est.)''],
                [CStr ''Puerto Rico'', CInt 3554642, CInt 72, CStr ''2010''],
                [CStr ''Alaska'', CInt 4500, CInt 2, CStr ''2010'']]\<rparr>)]"

section \<open>Properties\<close>

subsection \<open>Exceptions as values\<close>

lemma bind_exn_Inr_iff:
  "bind_exn m f = Inr y \<longleftrightarrow> (\<exists>x. m = Inr x \<and> f x = Inr y)"
  by (cases m) (simp_all add: bind_exn_def)

lemma bind_exn_simps [simp]:
  "bind_exn (Inl e) f = Inl e" "bind_exn (Inr x) f = f x"
  by (simp_all add: bind_exn_def)

lemma traverse_length: "traverse f xs = Inr ys \<Longrightarrow> length ys = length xs"
  by (induction xs arbitrary: ys) (auto simp: bind_exn_Inr_iff)

lemma getitem_length: "getitem c df = Inr vs \<Longrightarrow> length vs = length (rows df)"
  by (auto simp: getitem_def bind_exn_Inr_iff)

lemma numeric_column_length: "numeric_column c df = Inr xs \<Longrightarrow> length xs = length (rows df)"
  using traverse_length getitem_length
  by (fastforce simp: numeric_column_def bind_exn_Inr_iff)

subsection \<open>Rate columns\<close>

lemma rint_bounds: "of_int a \<le> q \<Longrightarrow> q \<le> of_int b \<Longrightarrow> a \<le> rint q \<and> rint q \<le> b"
  unfolding rint_def Let_def
  by (auto simp: le_floor_iff floor_le_iff) linarith+

lemma rounding_exact: "rounding (\<lambda>x. x)"
  by (simp add: rounding_def mono_def)

lemma rounding_between:
  assumes "rounding f" "of_int a \<le> q" "q \<le> of_int b" "\<bar>a\<bar> \<le> 2 ^ 53" "\<bar>b\<bar> \<le> 2 ^ 53"
  shows "of_int a \<le> f q \<and> f q \<le> of_int b"
proof -
  have m: "mono f" and fx: "f (of_int a) = of_int a" "f (of_int b) = of_int b"
    using assms(1,4,5) by (simp_all add: rounding_def)
  have "f (of_int a) \<le> f q" "f q \<le> f (of_int b)"
    using m assms(2,3) by (auto dest: monoD)
  then show ?thesis using fx by simp
qed

text \<open>Each of the five roundings on the way keeps the value between two integers.\<close>

lemma pct_rate_range:
  assumes r: "rounding f" and n: "0 \<le> n" "n \<le> d" "0 < d"
  shows "\<exists>r. pct_rate f (Fin n) (Fin d) = Fin r \<and> 0 \<le> r \<and> r \<le> 100"
proof -
  define q where "q = f (n / d)"
  have q: "0 \<le> q \<and> q \<le> 1"
    using rounding_between [OF r, of 0 "n / d" 1] n by (simp add: q_def)
  define p where "p = f (q * 100)"
  have p: "0 \<le> p \<and> p \<le> 100"
    using rounding_between [OF r, of 0 "q * 100" 100] q by (simp add: p_def)
  define s where "s = f (p * 100)"
  have s: "0 \<le> s \<and> s \<le> 10000"
    using rounding_between [OF r, of 0 "p * 100" 10000] p by (simp add: s_def)
  define k where "k = rint s"
  have k: "0 \<le> k \<and> k \<le> 10000"
    using rint_bounds [of 0 s 10000] s by (simp add: k_def)
  define t where "t = f (of_int k / 100)"
  have "(0::rat) \<le> of_int k / 100 \<and> of_int k / 100 \<le> (100::rat)" using k by simp
  then have t: "0 \<le> t \<and> t \<le> 100"
    using rounding_between [OF r, of 0 "of_int k / 100" 100] by (simp add: t_def)
  have "pct_rate f (Fin n) (Fin d) = Fin t"
    using n by (simp add: pct_rate_def round2_def q_def p_def s_def k_def t_def)
  then show ?thesis using t by blast
qed


lemma assign_rate_eq:
  assumes "numeric_column num df = Inr ns" "numeric_column den df = Inr ds"
  shows "assign_rate L new num den df
         = Inr (setitem new (map CNum (map2 (pct_rate (rnd L)) ns ds)) df)"
  using assms by (simp add: assign_rate_def)

text \<open>
  Claim C1. A rate column is assigned by \<^verbatim>\<open>df[new] = (df[num] / df[den] * 100).round(2)\<close>
  (\<open>poverty_rate\<close>, the five commuting rates, \<open>english_only_rate\<close>,
  \<open>spanish_speaking_rate\<close>, \<open>limited_english_rate\<close>). In every row where numerator and
  denominator are finite numbers with \<open>0 \<le> numerator \<le> denominator\<close> and
  \<open>0 < denominator\<close>, the value stored is a finite number between 0 and 100, whatever
  monotone rounding the machine applies.
\<close>

theorem rate_columns_within_0_100:
  assumes "rounding (rnd L)"
    and "numeric_column num df = Inr ns" and "numeric_column den df = Inr ds"
    and "i < length (rows df)"
    and "ns ! i = Fin n" and "ds ! i = Fin d"
    and "0 \<le> n" and "n \<le> d" and "0 < d"
  shows "\<exists>rates r. assign_rate L new num den df = Inr (setitem new (map CNum rates) df)
           \<and> length rates = length (rows df) \<and> rates ! i = Fin r \<and> 0 \<le> r \<and> r \<le> 100"
proof -
  let ?rates = "map2 (pct_rate (rnd L)) ns ds"
  have len: "length ns = length (rows df)" "length ds = length (rows df)"
    using assms(2,3) by (auto dest: numeric_column_length)
  then have "?rates ! i = pct_rate (rnd L) (Fin n) (Fin d)"
    using assms(4,5,6) by simp
  moreover obtain r where "pct_rate (rnd L) (Fin n) (Fin d) = Fin r" "0 \<le> r" "r \<le> 100"
    using pct_rate_range [OF assms(1,7,8,9)] by blast
  moreover have "length ?rates = length (rows df)" using len by simp
  ultimately show ?thesis using assign_rate_eq [OF assms(2,3)] by metis
qed

theorem rate_columns_within_0_100_witness:
  "rounding (rnd exact_numerics)
   \<and> numeric_column (CStr ''B17001_002E'') poverty_frame = Inr [Fin 1, Fin 0]
   \<and> numeric_column (CStr ''B17001_001E'') poverty_frame = Inr [Fin 8, Fin 0]
   \<and> 0 < length (rows poverty_frame)
   \<and> [Fin 1, Fin 0] ! 0 = Fin 1 \<and> [Fin 8, Fin 0] ! 0 = Fin 8
   \<and> (0::rat) \<le> 1 \<and> (1::rat) \<le> 8 \<and> (0::rat) < 8
   \<and> (\<exists>rates r. assign_rate exact_numerics (CStr ''poverty_rate'') (CStr ''B17001_002E'')
           (CStr ''B17001_001E'') poverty_frame
         = Inr (setitem (CStr ''poverty_rate'') (map CNum rates) poverty_frame)
       \<and> length rates = length (rows poverty_frame) \<and> rates ! 0 = Fin r \<and> 0 \<le> r \<and> r \<le> 100)"
proof -
  have h1: "rounding (rnd exact_numerics)" by (simp add: exact_numerics_def rounding_exact)
  have h2: "numeric_column (CStr ''B17001_002E'') poverty_frame = Inr [Fin 1, Fin 0]"
    by code_simp
  have h3: "numeric_column (CStr ''B17001_001E'') poverty_frame = Inr [Fin 8, Fin 0]"
    by code_simp
  have h4: "0 < length (rows poverty_frame)" by (simp add: poverty_frame_def)
  have h5: "[Fin 1, Fin 0] ! 0 = Fin 1" "[Fin 8, Fin 0] ! 0 = Fin 8" by simp_all
  have h6: "(0::rat) \<le> 1" "(1::rat) \<le> 8" "(0::rat) < 8" by simp_all
  from rate_columns_within_0_100 [OF h1 h2 h3 h4 h5 h6]
  show ?thesis using h1 h2 h3 h4 h5 h6 by blast
qed




subsection \<open>The weighted median\<close>





lemma total_weight_sort:
  fixes vw :: "('a::linorder \<times> rat) list"
  shows "sum_list (map snd (sort_key fst vw)) = sum_list (map snd vw)"
proof -
  have "mset (map snd (sort_key fst vw)) = mset (map snd vw)" by simp
  then show ?thesis by (metis sum_mset_sum_list)
qed


declare bit_length.simps [simp del]

lemma bit_length_upper: "n < 2 ^ bit_length n"
proof (induction n rule: bit_length.induct)
  case (1 n)
  show ?case
  proof (cases "n = 0")
    case True
    then show ?thesis by (subst bit_length.simps) simp
  next
    case False
    then have "n div 2 < 2 ^ bit_length (n div 2)" using "1" by simp
    then have "n < 2 * 2 ^ bit_length (n div 2)" by linarith
    then show ?thesis using False by (subst bit_length.simps) simp
  qed
qed

lemma bit_length_lower: "0 < n \<Longrightarrow> 2 ^ (bit_length n - 1) \<le> n"
proof (induction n rule: bit_length.induct)
  case (1 n)
  have bl: "bit_length n - 1 = bit_length (n div 2)"
    using "1.prems" by (subst bit_length.simps) simp
  show ?case
  proof (cases "n div 2 = 0")
    case True
    then have "bit_length (n div 2) = 0" by (subst bit_length.simps) simp
    then show ?thesis using "1.prems" bl by simp
  next
    case False
    then have ih: "2 ^ (bit_length (n div 2) - 1) \<le> n div 2" using "1" by simp
    have "0 < bit_length (n div 2)" using False by (subst bit_length.simps) simp
    then have "(2::nat) ^ bit_length (n div 2) = 2 * 2 ^ (bit_length (n div 2) - 1)"
      by (cases "bit_length (n div 2)") simp_all
    moreover have "2 * (n div 2) \<le> n" by simp
    ultimately have "(2::nat) ^ bit_length (n div 2) \<le> n" using ih by linarith
    then show ?thesis by (simp only: bl)
  qed
qed



text \<open>The exponent is the one of the binary representation: the number lies between
  \<open>2 ^ e\<close> and \<open>2 ^ (e + 1)\<close>, so that \<open>binary64\<close> keeps 53 significant bits.\<close>

lemma pow2_exponent_gt:
  assumes "0 < q"
  shows "q < 2 * pow2 (exponent q)"
proof (cases "1 \<le> q")
  case True
  define n where "n = nat \<lfloor>q\<rfloor>"
  have fl: "1 \<le> \<lfloor>q\<rfloor>" using True by (simp add: le_floor_iff)
  then have n: "0 < n" by (simp add: n_def)
  have "rat_of_nat n = of_int \<lfloor>q\<rfloor>" using fl by (simp add: n_def)
  then have nq: "q < of_nat n + 1" by linarith
  have bl: "0 < bit_length n" using n by (subst bit_length.simps) simp
  then have "exponent q = int (bit_length n - 1)"
    using True by (simp add: exponent_def n_def)
  then have "2 * pow2 (exponent q) = 2 * 2 ^ (bit_length n - 1)" by (simp add: pow2_def)
  also have "\<dots> = 2 ^ bit_length n" using bl by (cases "bit_length n") simp_all
  finally have p: "2 * pow2 (exponent q) = 2 ^ bit_length n" .
  have "n + 1 \<le> 2 ^ bit_length n" using bit_length_upper [of n] by simp
  then have "rat_of_nat (n + 1) \<le> 2 ^ bit_length n"
    by (metis of_nat_le_iff of_nat_numeral of_nat_power)
  then show ?thesis using nq p by simp
next
  case False
  define m where "m = nat \<lceil>1 / q\<rceil>"
  define k where "k = bit_length (m - 1)"
  have "1 < 1 / q" using False assms by simp
  then have c: "1 < \<lceil>1 / q\<rceil>" by (simp add: less_ceiling_iff)
  then have mc: "rat_of_nat m = of_int \<lceil>1 / q\<rceil>" and m1: "0 < m - 1" by (simp_all add: m_def)
  have "of_int \<lceil>1 / q\<rceil> - 1 < 1 / q" by linarith
  then have lt: "rat_of_nat (m - 1) < 1 / q" using mc m1 by (simp add: of_nat_diff)
  have "2 ^ (k - 1) \<le> m - 1" unfolding k_def using m1 by (rule bit_length_lower)
  then have "(2::rat) ^ (k - 1) \<le> rat_of_nat (m - 1)"
    by (metis of_nat_le_iff of_nat_numeral of_nat_power)
  then have "2 ^ (k - 1) < 1 / q" using lt by linarith
  then have "q * 2 ^ (k - 1) < 1" using assms by (simp add: pos_less_divide_eq mult.commute)
  then have q: "q < 1 / 2 ^ (k - 1)" by (simp add: pos_less_divide_eq)
  have k: "0 < k" unfolding k_def using m1 by (subst bit_length.simps) simp
  have "exponent q = - int k" using False by (simp add: exponent_def k_def m_def)
  then have "2 * pow2 (exponent q) = 2 / 2 ^ k" using k by (simp add: pow2_def)
  also have "\<dots> = 1 / 2 ^ (k - 1)" using k by (cases k) simp_all
  finally show ?thesis using q by simp
qed




text \<open>The model of binary64 on the weights of the example: the double nearest to one
  tenth, the running sums of the weights in the order of the rents, and half their
  sum.\<close>

lemma binary64_example:
  "binary64 (1 / 10) = 3602879701896397 / 36028797018963968"
  "cumsum binary64 (map snd (sort_key fst rents))
     = [3602879701896397 / 36028797018963968, 5404319552844595 / 9007199254740992,
        2476979795053773 / 2251799813685248, 1351079888211149 / 1125899906842624]"
  "binary64 (running_sum binary64 (map snd (sort_key fst rents)) / 2)
     = 1351079888211149 / 2251799813685248"
  by code_simp+

text \<open>Rounding errs in both directions. With the weights 3.0, 0.91, 3.91 the function
  returns the second value, although the first two entries weigh less than half the
  total when summed exactly.\<close>

lemma weighted_median_below_exact_half:
  "weighted_median binary64 (running_sum binary64)
     [(1::int, 3), (2, binary64 (91 / 100)), (3, binary64 (391 / 100))] = Inr 2
   \<and> weight_upto 2 [(1::int, 3), (2, binary64 (91 / 100)), (3, binary64 (391 / 100))]
       < sum_list (map snd [(1::int, 3), (2, binary64 (91 / 100)), (3, binary64 (391 / 100))]) / 2"
  by code_simp




subsection \<open>Paths and the year loop\<close>

declare str_nat.simps [simp del]

lemma digit_val_digit_char: "d < 10 \<Longrightarrow> digit_val (digit_char d) = Some d"
proof -
  assume "d < 10"
  then have "d = 0 \<or> d = 1 \<or> d = 2 \<or> d = 3 \<or> d = 4 \<or> d = 5 \<or> d = 6 \<or> d = 7
      \<or> d = 8 \<or> d = 9" by arith
  then show ?thesis by (elim disjE) (simp_all add: digit_val_def digit_char_def)
qed

lemma parse_digits_snoc:
  "parse_digits acc (xs @ [c]) =
     (case parse_digits acc xs of None \<Rightarrow> None
      | Some a \<Rightarrow> (case digit_val c of None \<Rightarrow> None | Some v \<Rightarrow> Some (10 * a + v)))"
  by (induction xs arbitrary: acc) (auto split: option.splits)

lemma parse_digits_str_nat: "parse_digits 0 (str_nat n) = Some n"
proof (induction n rule: str_nat.induct)
  case (1 n)
  show ?case
  proof (cases "n < 10")
    case True
    then show ?thesis by (subst str_nat.simps) (simp add: digit_val_digit_char)
  next
    case False
    then have "parse_digits 0 (str_nat (n div 10)) = Some (n div 10)" using "1" by simp
    then show ?thesis using False
      by (subst str_nat.simps) (simp add: parse_digits_snoc digit_val_digit_char)
  qed
qed

lemma str_nat_inj: "str_nat m = str_nat n \<Longrightarrow> m = n"
  by (metis parse_digits_str_nat option.inject)

lemma str_int_inj: "0 \<le> i \<Longrightarrow> 0 \<le> j \<Longrightarrow> str_int i = str_int j \<Longrightarrow> i = j"
  by (auto simp: str_int_def dest!: str_nat_inj)

lemma data_file_inj:
  "0 \<le> i \<Longrightarrow> 0 \<le> j \<Longrightarrow> data_file base dir stem i = data_file base dir stem j \<Longrightarrow> i = j"
  by (auto simp: data_file_def dest: str_int_inj)

lemma years_set: "set years = {2010..2023}"
  by (simp only: years_def set_upto)

lemma years_distinct: "distinct years"
  by (simp only: years_def distinct_upto)

lemma data_file_inj_on_years: "inj_on (data_file base dir stem) (set years)"
proof (rule inj_onI)
  fix x y assume "x \<in> set years" "y \<in> set years"
    and e: "data_file base dir stem x = data_file base dir stem y"
  then have "0 \<le> x" "0 \<le> y" by (simp_all add: years_set)
  then show "x = y" using e by (rule data_file_inj)
qed

lemma say_simps [simp]:
  "files (say ms w) = files w" "requests (say ms w) = requests w"
  "stdout (say ms w) = stdout w @ ms"
  by (simp_all add: say_def)

lemma run_year_eq:
  "run_year s http y w =
     w\<lparr>files := (files w)(output_file s y := file_after s http y (files w (output_file s y))),
       requests := requests w @ year_requests s y (files w (output_file s y)),
       stdout := stdout w @ year_output s http y (files w (output_file s y))\<rparr>"
  by (auto simp: run_year_def file_after_def year_requests_def year_output_def say_def Let_def
      split: sum.splits)

lemma run_year_files:
  "files (run_year s http y w) =
     (files w)(output_file s y := file_after s http y (files w (output_file s y)))"
  and run_year_requests:
  "requests (run_year s http y w) = requests w @ year_requests s y (files w (output_file s y))"
  and run_year_stdout:
  "stdout (run_year s http y w) = stdout w @ year_output s http y (files w (output_file s y))"
  by (simp_all add: run_year_eq)

lemma fold_files_other:
  "p \<notin> output_file s ` set ys \<Longrightarrow> files (fold (run_year s http) ys w) p = files w p"
  by (induction ys arbitrary: w) (auto simp: run_year_files)

lemma fold_files_at:
  "distinct ys \<Longrightarrow> inj_on (output_file s) (set ys) \<Longrightarrow> y \<in> set ys \<Longrightarrow>
   files (fold (run_year s http) ys w) (output_file s y)
     = file_after s http y (files w (output_file s y))"
proof (induction ys arbitrary: w)
  case Nil
  then show ?case by simp
next
  case (Cons a ys)
  show ?case
  proof (cases "y = a")
    case True
    then have "output_file s y \<notin> output_file s ` set ys"
      using Cons.prems by (auto simp: inj_on_def)
    then show ?thesis using True by (simp add: fold_files_other run_year_files)
  next
    case False
    then have y: "y \<in> set ys" using Cons.prems by simp
    have ne: "output_file s a \<noteq> output_file s y"
      using Cons.prems False by (auto simp: inj_on_def)
    have "files (fold (run_year s http) ys (run_year s http a w)) (output_file s y)
        = file_after s http y (files (run_year s http a w) (output_file s y))"
      using Cons.IH [of "run_year s http a w"] Cons.prems y by (simp add: inj_on_def)
    then show ?thesis using ne by (simp add: run_year_files)
  qed
qed

lemma fold_requests:
  "distinct ys \<Longrightarrow> inj_on (output_file s) (set ys) \<Longrightarrow>
   requests (fold (run_year s http) ys w)
     = requests w @ concat (map (\<lambda>y. year_requests s y (files w (output_file s y))) ys)"
proof (induction ys arbitrary: w)
  case Nil
  then show ?case by simp
next
  case (Cons a ys)
  have ne: "\<forall>y \<in> set ys. output_file s a \<noteq> output_file s y"
    using Cons.prems by (auto simp: inj_on_def)
  have "requests (fold (run_year s http) ys (run_year s http a w))
      = requests (run_year s http a w)
        @ concat (map (\<lambda>y. year_requests s y (files (run_year s http a w) (output_file s y))) ys)"
    using Cons.IH [of "run_year s http a w"] Cons.prems by (simp add: inj_on_def)
  moreover have "map (\<lambda>y. year_requests s y (files (run_year s http a w) (output_file s y))) ys
      = map (\<lambda>y. year_requests s y (files w (output_file s y))) ys"
    using ne by (intro map_cong) (auto simp: run_year_files)
  ultimately show ?case by (simp add: run_year_requests)
qed

lemma fold_stdout:
  "distinct ys \<Longrightarrow> inj_on (output_file s) (set ys) \<Longrightarrow>
   stdout (fold (run_year s http) ys w)
     = stdout w @ concat (map (\<lambda>y. year_output s http y (files w (output_file s y))) ys)"
proof (induction ys arbitrary: w)
  case Nil
  then show ?case by simp
next
  case (Cons a ys)
  have ne: "\<forall>y \<in> set ys. output_file s a \<noteq> output_file s y"
    using Cons.prems by (auto simp: inj_on_def)
  have "stdout (fold (run_year s http) ys (run_year s http a w))
      = stdout (run_year s http a w)
        @ concat (map (\<lambda>y. year_output s http y (files (run_year s http a w) (output_file s y))) ys)"
    using Cons.IH [of "run_year s http a w"] Cons.prems by (simp add: inj_on_def)
  moreover have "map (\<lambda>y. year_output s http y (files (run_year s http a w) (output_file s y))) ys
      = map (\<lambda>y. year_output s http y (files w (output_file s y))) ys"
    using ne by (intro map_cong) (auto simp: run_year_files)
  ultimately show ?case by (simp add: run_year_stdout)
qed

subsection \<open>Frames\<close>

lemma length_le_foldr_max: "r \<in> set rs \<Longrightarrow> length r \<le> foldr max (map length rs) 0"
  by (induction rs) auto

lemma DataFrame_Inr:
  assumes "DataFrame rws headers = Inr df"
  shows "columns df = headers" and "rows df = map (pad_row (length headers)) rws"
    and "wf_table df"
proof -
  show c: "columns df = headers"
    using assms by (auto simp: DataFrame_def Let_def split: if_splits)
  show r: "rows df = map (pad_row (length headers)) rws"
    using assms by (auto simp: DataFrame_def Let_def split: if_splits)
  have "\<forall>r \<in> set rws. length r \<le> length headers"
    using assms length_le_foldr_max [of _ rws]
    by (auto simp: DataFrame_def Let_def split: if_splits)
  then show "wf_table df"
    by (auto simp: wf_table_def c r list_all_iff pad_row_def)
qed

lemma cell_at_map2:
  "length r = length cols \<Longrightarrow> i < length cols \<Longrightarrow>
   cell_at (map2 (\<lambda>l x. if l = c then v else x) cols r) i = (if cols ! i = c then v else cell_at r i)"
  by (simp add: cell_at_def)

lemma setitem_scalar_year:
  assumes "wf_table df"
  shows "frame_inv y (length (rows df)) (setitem_scalar (CStr ''year'') (CInt y) df)"
    and "columns (setitem_scalar (CStr ''year'') (CInt y) df)
         = (if CStr ''year'' \<in> set (columns df) then columns df else columns df @ [CStr ''year''])"
    and "CStr ''year'' \<notin> set (columns df) \<Longrightarrow>
         rows (setitem_scalar (CStr ''year'') (CInt y) df) = map (\<lambda>r. r @ [CInt y]) (rows df)"
proof -
  let ?df = "setitem_scalar (CStr ''year'') (CInt y) df"
  have len: "\<forall>r \<in> set (rows df). length r = length (columns df)"
    using assms by (simp add: wf_table_def list_all_iff)
  show "columns ?df
         = (if CStr ''year'' \<in> set (columns df) then columns df else columns df @ [CStr ''year''])"
    by (simp add: setitem_scalar_def)
  show "CStr ''year'' \<notin> set (columns df) \<Longrightarrow> rows ?df = map (\<lambda>r. r @ [CInt y]) (rows df)"
    by (simp add: setitem_scalar_def)
  show "frame_inv y (length (rows df)) ?df"
  proof (cases "CStr ''year'' \<in> set (columns df)")
    case True
    then show ?thesis using len
      by (auto simp: frame_inv_def wf_table_def year_column_def setitem_scalar_def list_all_iff
          cell_at_map2)
  next
    case False
    have "\<And>i. i < length (columns df) \<Longrightarrow> columns df ! i \<noteq> CStr ''year''"
      using False by (metis nth_mem)
    then show ?thesis using False len
      by (auto simp: frame_inv_def wf_table_def year_column_def setitem_scalar_def list_all_iff
          cell_at_def nth_append)
  qed
qed

lemma setitem_inv:
  assumes "frame_inv y n df" and "length vs = n" and "c \<noteq> CStr ''year''"
  shows "frame_inv y n (setitem c vs df)"
    and "columns (setitem c vs df) = (if c \<in> set (columns df) then columns df else columns df @ [c])"
proof -
  have len: "\<forall>r \<in> set (rows df). length r = length (columns df)"
    and yr: "CStr ''year'' \<in> set (columns df)"
    and yc: "\<forall>r \<in> set (rows df). \<forall>i < length (columns df).
               columns df ! i = CStr ''year'' \<longrightarrow> cell_at r i = CInt y"
    and n: "length (rows df) = n"
    using assms(1) by (auto simp: frame_inv_def wf_table_def year_column_def list_all_iff)
  show "columns (setitem c vs df) = (if c \<in> set (columns df) then columns df else columns df @ [c])"
    by (simp add: setitem_def)
  show "frame_inv y n (setitem c vs df)"
  proof (cases "c \<in> set (columns df)")
    case True
    have "\<And>v r i. (v, r) \<in> set (zip vs (rows df)) \<Longrightarrow> i < length (columns df) \<Longrightarrow>
        columns df ! i = CStr ''year'' \<Longrightarrow>
        cell_at (map2 (\<lambda>l x. if l = c then v else x) (columns df) r) i = CInt y"
      using len yc assms(3) by (auto simp: cell_at_map2 dest: set_zip_rightD)
    then show ?thesis using True len yr n assms(2)
      by (auto simp: frame_inv_def wf_table_def year_column_def setitem_def list_all_iff
          dest: set_zip_rightD)
  next
    case False
    have idx: "\<And>i. i < Suc (length (columns df)) \<Longrightarrow> (columns df @ [c]) ! i = CStr ''year''
        \<Longrightarrow> i < length (columns df) \<and> columns df ! i = CStr ''year''"
      using assms(3) by (metis less_Suc_eq nth_append nth_append_length)
    have "\<And>v r i. (v, r) \<in> set (zip vs (rows df)) \<Longrightarrow> i < Suc (length (columns df)) \<Longrightarrow>
        (columns df @ [c]) ! i = CStr ''year'' \<Longrightarrow> cell_at (r @ [v]) i = CInt y"
    proof -
      fix v r i
      assume a: "(v, r) \<in> set (zip vs (rows df))" "i < Suc (length (columns df))"
        "(columns df @ [c]) ! i = CStr ''year''"
      then have r: "r \<in> set (rows df)" by (auto dest: set_zip_rightD)
      from idx [OF a(2,3)] have i: "i < length (columns df)" "columns df ! i = CStr ''year''"
        by simp_all
      then have "cell_at r i = CInt y" using yc r by blast
      moreover have "length r = length (columns df)" using len r by blast
      ultimately show "cell_at (r @ [v]) i = CInt y" using i by (simp add: cell_at_def nth_append)
    qed
    then show ?thesis using False len yr n assms(2)
      by (auto simp: frame_inv_def wf_table_def year_column_def setitem_def list_all_iff
          dest: set_zip_rightD)
  qed
qed

subsection \<open>The scripts of the Census API\<close>

lemma script_paths_inj:
  "s \<in> set (census_api_scripts L base) \<Longrightarrow> inj_on (output_file s) (set years)"
  by (auto simp: census_api_scripts_def census_script_def county_script_def poverty_script_def
      housing_script_def year_of_arrival_script_def commuting_script_def language_script_def
      health_insurance_script_def hispanic_script_def data_file_inj_on_years)

lemma run_script_files_at:
  "inj_on (output_file s) (set years) \<Longrightarrow> y \<in> set years \<Longrightarrow>
   files (run_script s http w) (output_file s y) = file_after s http y (files w (output_file s y))"
  unfolding run_script_def by (rule fold_files_at [OF years_distinct])

lemma run_script_files_other:
  "p \<notin> output_file s ` set years \<Longrightarrow> files (run_script s http w) p = files w p"
  unfolding run_script_def by (rule fold_files_other)

lemma run_script_requests:
  "inj_on (output_file s) (set years) \<Longrightarrow>
   requests (run_script s http w)
     = requests w @ concat (map (\<lambda>y. year_requests s y (files w (output_file s y))) years)"
  unfolding run_script_def by (rule fold_requests [OF years_distinct])

lemma run_script_stdout:
  "inj_on (output_file s) (set years) \<Longrightarrow>
   stdout (run_script s http w)
     = stdout w @ concat (map (\<lambda>y. year_output s http y (files w (output_file s y))) years)"
  unfolding run_script_def by (rule fold_stdout [OF years_distinct])

lemma concat_year_requests_noskip:
  "\<not> skip_existing s \<Longrightarrow>
   concat (map (\<lambda>y. year_requests s y (old y)) ys) = map (\<lambda>y. (y, url s y)) ys"
  by (induction ys) (auto simp: year_requests_def)

lemma concat_year_requests_skip:
  "skip_existing s \<Longrightarrow>
   concat (map (\<lambda>y. year_requests s y (old y)) ys)
     = map (\<lambda>y. (y, url s y)) (filter (\<lambda>y. old y = None) ys)"
  by (induction ys) (auto simp: year_requests_def)

lemma run_script_requests_noskip:
  assumes "inj_on (output_file s) (set years)" "\<not> skip_existing s"
  shows "requests (run_script s http w) = requests w @ map (\<lambda>y. (y, url s y)) years"
  by (simp add: run_script_requests [OF assms(1)] concat_year_requests_noskip [OF assms(2)])

lemma run_script_requests_skip:
  assumes "inj_on (output_file s) (set years)" "skip_existing s"
  shows "requests (run_script s http w)
         = requests w @ map (\<lambda>y. (y, url s y)) (filter (\<lambda>y. files w (output_file s y) = None) years)"
  by (simp add: run_script_requests [OF assms(1)] concat_year_requests_skip [OF assms(2)])

text \<open>
  Claim C9. In the county, language, commuting and health-insurance downloads, if the
  output file of a year exists when the loop reaches that year, then it existed before
  the run (earlier iterations write other paths), the run sends no request for that
  year, and the file holds the same table after the run.
\<close>

theorem existing_output_file_is_left_alone:
  assumes "(s, final) \<in>
      {(county_script base, download_county_data base http w),
       (language_script L base, download_language_data L base http w),
       (commuting_script L base, download_commuting_data L base http w),
       (health_insurance_script L base, download_health_insurance_data L base http w)}"
    and "year \<in> set years"
    and "files (fold (run_year s http) (filter (\<lambda>y. y < year) years) w) (output_file s year) = Some t"
  shows "files w (output_file s year) = Some t
       \<and> files final (output_file s year) = Some t
       \<and> (\<forall>u. (year, u) \<in> set (requests final) \<longrightarrow> (year, u) \<in> set (requests w))"
proof -
  have mem: "s \<in> set (census_api_scripts L base)"
    using assms(1) by (auto simp: census_api_scripts_def)
  have skip: "skip_existing s"
    using assms(1) by (auto simp: county_script_def language_script_def commuting_script_def
        health_insurance_script_def)
  have fin: "files final = files (run_script s http w)" "requests final = requests (run_script s http w)"
    using assms(1) by (auto simp: download_county_data_def download_language_data_def
        download_commuting_data_def download_health_insurance_data_def)
  note inj = script_paths_inj [OF mem]
  have "output_file s year \<notin> output_file s ` set (filter (\<lambda>y. y < year) years)"
    using inj assms(2) by (auto simp: inj_on_def)
  then have old: "files w (output_file s year) = Some t"
    using assms(3) by (simp add: fold_files_other)
  have a: "files final (output_file s year) = Some t"
    using run_script_files_at [OF inj assms(2)] old skip by (simp add: fin file_after_def)
  have "\<And>u. (year, u) \<in> set (requests final) \<Longrightarrow> (year, u) \<in> set (requests w)"
    using old by (auto simp: fin run_script_requests_skip [OF inj skip])
  then show ?thesis using old a by blast
qed

theorem existing_output_file_is_left_alone_witness:
  "2012 \<in> set years
   \<and> files (fold (run_year (county_script ''/repo'') no_network) (filter (\<lambda>y. y < 2012) years)
        county_2012_on_disk) (output_file (county_script ''/repo'') 2012) = Some county_table_2012
   \<and> files (download_county_data ''/repo'' no_network county_2012_on_disk)
        (output_file (county_script ''/repo'') 2012) = Some county_table_2012
   \<and> (2012, url (county_script ''/repo'') 2012)
        \<notin> set (requests (download_county_data ''/repo'' no_network county_2012_on_disk))"
proof -
  have h1: "(county_script ''/repo'', download_county_data ''/repo'' no_network county_2012_on_disk) \<in>
      {(county_script ''/repo'', download_county_data ''/repo'' no_network county_2012_on_disk),
       (language_script exact_numerics ''/repo'',
        download_language_data exact_numerics ''/repo'' no_network county_2012_on_disk),
       (commuting_script exact_numerics ''/repo'',
        download_commuting_data exact_numerics ''/repo'' no_network county_2012_on_disk),
       (health_insurance_script exact_numerics ''/repo'',
        download_health_insurance_data exact_numerics ''/repo'' no_network county_2012_on_disk)}"
    by simp
  have h2: "2012 \<in> set years" by (simp add: years_set)
  have h3: "files (fold (run_year (county_script ''/repo'') no_network) (filter (\<lambda>y. y < 2012) years)
        county_2012_on_disk) (output_file (county_script ''/repo'') 2012) = Some county_table_2012"
  proof -
    have "inj_on (output_file (county_script ''/repo'')) (set years)"
      by (simp add: county_script_def data_file_inj_on_years)
    then have "output_file (county_script ''/repo'') 2012
        \<notin> output_file (county_script ''/repo'') ` set (filter (\<lambda>y. y < 2012) years)"
      using h2 by (auto simp: inj_on_def)
    then show ?thesis by (simp add: fold_files_other county_2012_on_disk_def)
  qed
  have r: "requests county_2012_on_disk = []" by (simp add: county_2012_on_disk_def)
  from existing_output_file_is_left_alone [OF h1 h2 h3]
  show ?thesis using h2 h3 r by auto
qed

subsection \<open>The order of the requests\<close>

lemma occupation_industry_year_requests:
  "requests (occupation_industry_year L base http y w)
     = requests w @ (y, occ_url y)
         # (case fetch_json (http (occ_url y)) of Inl e \<Rightarrow> [] | Inr d \<Rightarrow> [(y, ind_url y)])"
  by (auto simp: occupation_industry_year_def Let_def split: sum.splits prod.splits)

lemma occupation_industry_requests:
  "requests (fold (occupation_industry_year L base http) ys w)
     = requests w @ concat (map (\<lambda>y. (y, occ_url y)
         # (case fetch_json (http (occ_url y)) of Inl e \<Rightarrow> [] | Inr d \<Rightarrow> [(y, ind_url y)])) ys)"
  by (induction ys arbitrary: w) (simp_all add: occupation_industry_year_requests)

lemma hispanic_paths_disjoint:
  "t \<in> set tables \<Longrightarrow> a \<in> set tables \<Longrightarrow> fst t \<noteq> fst a \<Longrightarrow>
   output_file (hispanic_script L base t) y \<noteq> output_file (hispanic_script L base a) y'"
  by (auto simp: tables_def hispanic_script_def data_file_def)

lemma hispanic_script_props:
  "skip_existing (hispanic_script L base t)"
  "inj_on (output_file (hispanic_script L base t)) (set years)"
  by (cases t; simp add: hispanic_script_def data_file_inj_on_years)+

lemma hispanic_tables_requests:
  assumes "distinct (map fst ts)" "set ts \<subseteq> set tables"
  shows "requests (fold (\<lambda>t w'. run_script (hispanic_script L base t) http (say (pre t) w')) ts w)
     = requests w @ concat (map (\<lambda>t. map (\<lambda>y. (y, url (hispanic_script L base t) y))
         (filter (\<lambda>y. files w (output_file (hispanic_script L base t) y) = None) years)) ts)"
  using assms
proof (induction ts arbitrary: w)
  case Nil
  then show ?case by simp
next
  case (Cons a ts)
  let ?w = "run_script (hispanic_script L base a) http (say (pre a) w)"
  have same: "\<And>t y. t \<in> set ts \<Longrightarrow>
      files ?w (output_file (hispanic_script L base t) y) = files w (output_file (hispanic_script L base t) y)"
  proof -
    fix t y assume t: "t \<in> set ts"
    have "fst a \<notin> fst ` set ts" using Cons.prems(1) by simp
    then have "fst t \<noteq> fst a" using t by (metis image_eqI)
    moreover have "t \<in> set tables" "a \<in> set tables" using Cons.prems(2) t by auto
    ultimately have "output_file (hispanic_script L base t) y
        \<notin> output_file (hispanic_script L base a) ` set years"
      using hispanic_paths_disjoint by blast
    then show "files ?w (output_file (hispanic_script L base t) y)
        = files w (output_file (hispanic_script L base t) y)"
      by (simp add: run_script_files_other)
  qed
  have "requests (fold (\<lambda>t w'. run_script (hispanic_script L base t) http (say (pre t) w')) ts ?w)
      = requests ?w @ concat (map (\<lambda>t. map (\<lambda>y. (y, url (hispanic_script L base t) y))
         (filter (\<lambda>y. files ?w (output_file (hispanic_script L base t) y) = None) years)) ts)"
    using Cons.IH [of ?w] Cons.prems by simp
  moreover have "map (\<lambda>t. map (\<lambda>y. (y, url (hispanic_script L base t) y))
         (filter (\<lambda>y. files ?w (output_file (hispanic_script L base t) y) = None) years)) ts
      = map (\<lambda>t. map (\<lambda>y. (y, url (hispanic_script L base t) y))
         (filter (\<lambda>y. files w (output_file (hispanic_script L base t) y) = None) years)) ts"
    using same by (intro map_cong refl) (simp cong: filter_cong)
  moreover have "requests ?w = requests w @ map (\<lambda>y. (y, url (hispanic_script L base a) y))
         (filter (\<lambda>y. files w (output_file (hispanic_script L base a) y) = None) years)"
    using run_script_requests_skip [OF hispanic_script_props(2) hispanic_script_props(1)]
    by simp
  ultimately show ?case by simp
qed

lemma tables_distinct: "distinct (map fst tables)"
  by (simp add: tables_def)

text \<open>
  Claim C7, as stated: at most one request per year. The occupation and industry
  script sends two requests in the iteration of 2010 (and of every year whose first
  response decodes).
\<close>

theorem two_requests_in_one_year:
  "filter (\<lambda>r. fst r = 2010)
     (requests (download_occupation_industry_data exact_numerics ''/repo'' empty_array_server fresh))
   = [(2010, occ_url 2010), (2010, ind_url 2010)]"
  by (simp only: download_occupation_industry_data_def occupation_industry_requests)
    (simp add: years_def fresh_def empty_array_server_def upto_rec_numeral)

text \<open>
  Claim C7, amended. Every Census download script iterates over the years 2010 to 2023
  in increasing order. The census, poverty, housing and year-of-arrival scripts send
  exactly one request in each iteration. The county, commuting, language and
  health-insurance scripts send one request in the iterations of the years whose
  output file does not exist, and none in the others. The occupation and industry
  script sends one request per iteration, and a second one when the first response
  decodes. The Hispanic comparison script runs the year loop once for each of its four
  tables, in each of them skipping the years whose output file exists.
\<close>

theorem requests_follow_the_year_range:
  "years = [2010, 2011, 2012, 2013, 2014, 2015, 2016, 2017, 2018, 2019, 2020, 2021, 2022, 2023]
   \<and> requests (download_census_data base http w)
       = requests w @ map (\<lambda>y. (y, url (census_script base) y)) years
   \<and> requests (download_poverty_data L base http w)
       = requests w @ map (\<lambda>y. (y, url (poverty_script L base) y)) years
   \<and> requests (download_housing_data L base http w)
       = requests w @ map (\<lambda>y. (y, url (housing_script L base) y)) years
   \<and> requests (download_year_of_arrival_data L base http w)
       = requests w @ map (\<lambda>y. (y, url (year_of_arrival_script L base) y)) years
   \<and> requests (download_county_data base http w)
       = requests w @ map (\<lambda>y. (y, url (county_script base) y))
           (filter (\<lambda>y. files w (output_file (county_script base) y) = None) years)
   \<and> requests (download_commuting_data L base http w)
       = requests w @ map (\<lambda>y. (y, url (commuting_script L base) y))
           (filter (\<lambda>y. files w (output_file (commuting_script L base) y) = None) years)
   \<and> requests (download_language_data L base http w)
       = requests w @ map (\<lambda>y. (y, url (language_script L base) y))
           (filter (\<lambda>y. files w (output_file (language_script L base) y) = None) years)
   \<and> requests (download_health_insurance_data L base http w)
       = requests w @ map (\<lambda>y. (y, url (health_insurance_script L base) y))
           (filter (\<lambda>y. files w (output_file (health_insurance_script L base) y) = None) years)
   \<and> requests (download_occupation_industry_data L base http w)
       = requests w @ concat (map (\<lambda>y. (y, occ_url y)
           # (case fetch_json (http (occ_url y)) of Inl e \<Rightarrow> [] | Inr d \<Rightarrow> [(y, ind_url y)])) years)
   \<and> requests (download_hispanic_comparison_data L base http w)
       = requests w @ concat (map (\<lambda>t. map (\<lambda>y. (y, url (hispanic_script L base t) y))
           (filter (\<lambda>y. files w (output_file (hispanic_script L base t) y) = None) years)) tables)"
proof -
  have inj: "\<And>s. s \<in> set (census_api_scripts L base) \<Longrightarrow> inj_on (output_file s) (set years)"
    by (rule script_paths_inj)
  have y: "years = [2010, 2011, 2012, 2013, 2014, 2015, 2016, 2017, 2018, 2019, 2020, 2021, 2022, 2023]"
    by (simp add: years_def upto_rec_numeral)
  have c1: "requests (download_census_data base http w)
       = requests w @ map (\<lambda>y. (y, url (census_script base) y)) years"
    unfolding download_census_data_def
    by (rule run_script_requests_noskip) (simp_all add: inj census_api_scripts_def, simp add: census_script_def)
  have c2: "requests (download_poverty_data L base http w)
       = requests w @ map (\<lambda>y. (y, url (poverty_script L base) y)) years"
    unfolding download_poverty_data_def
    by (rule run_script_requests_noskip) (simp_all add: inj census_api_scripts_def, simp add: poverty_script_def)
  have c3: "requests (download_housing_data L base http w)
       = requests w @ map (\<lambda>y. (y, url (housing_script L base) y)) years"
    unfolding download_housing_data_def
    by (rule run_script_requests_noskip) (simp_all add: inj census_api_scripts_def, simp add: housing_script_def)
  have c4: "requests (download_year_of_arrival_data L base http w)
       = requests w @ map (\<lambda>y. (y, url (year_of_arrival_script L base) y)) years"
    unfolding download_year_of_arrival_data_def say_simps
    by (rule run_script_requests_noskip)
      (simp_all add: inj census_api_scripts_def, simp add: year_of_arrival_script_def)
  have c5: "requests (download_county_data base http w)
       = requests w @ map (\<lambda>y. (y, url (county_script base) y))
           (filter (\<lambda>y. files w (output_file (county_script base) y) = None) years)"
    unfolding download_county_data_def
    by (rule run_script_requests_skip) (simp_all add: inj census_api_scripts_def, simp add: county_script_def)
  have c6: "requests (download_commuting_data L base http w)
       = requests w @ map (\<lambda>y. (y, url (commuting_script L base) y))
           (filter (\<lambda>y. files w (output_file (commuting_script L base) y) = None) years)"
    unfolding download_commuting_data_def say_simps
    by (rule run_script_requests_skip) (simp_all add: inj census_api_scripts_def, simp add: commuting_script_def)
  have c7: "requests (download_language_data L base http w)
       = requests w @ map (\<lambda>y. (y, url (language_script L base) y))
           (filter (\<lambda>y. files w (output_file (language_script L base) y) = None) years)"
    unfolding download_language_data_def say_simps
    by (rule run_script_requests_skip) (simp_all add: inj census_api_scripts_def, simp add: language_script_def)
  have c8: "requests (download_health_insurance_data L base http w)
       = requests w @ map (\<lambda>y. (y, url (health_insurance_script L base) y))
           (filter (\<lambda>y. files w (output_file (health_insurance_script L base) y) = None) years)"
    unfolding download_health_insurance_data_def say_simps
    by (rule run_script_requests_skip)
      (simp_all add: inj census_api_scripts_def, simp add: health_insurance_script_def)
  have c9: "requests (download_occupation_industry_data L base http w)
       = requests w @ concat (map (\<lambda>y. (y, occ_url y)
           # (case fetch_json (http (occ_url y)) of Inl e \<Rightarrow> [] | Inr d \<Rightarrow> [(y, ind_url y)])) years)"
    unfolding download_occupation_industry_data_def by (rule occupation_industry_requests)
  have c10: "requests (download_hispanic_comparison_data L base http w)
       = requests w @ concat (map (\<lambda>t. map (\<lambda>y. (y, url (hispanic_script L base t) y))
           (filter (\<lambda>y. files w (output_file (hispanic_script L base t) y) = None) years)) tables)"
    unfolding download_hispanic_comparison_data_def say_simps
    by (rule hispanic_tables_requests [OF tables_distinct]) simp
  show ?thesis using y c1 c2 c3 c4 c5 c6 c7 c8 c9 c10 by blast
qed

theorem requests_follow_the_year_range_witness:
  "requests (download_census_data ''/repo'' no_network fresh)
     = map (\<lambda>y. (y, url (census_script ''/repo'') y))
         [2010, 2011, 2012, 2013, 2014, 2015, 2016, 2017, 2018, 2019, 2020, 2021, 2022, 2023]
   \<and> requests (download_occupation_industry_data exact_numerics ''/repo'' no_network fresh)
     = map (\<lambda>y. (y, occ_url y))
         [2010, 2011, 2012, 2013, 2014, 2015, 2016, 2017, 2018, 2019, 2020, 2021, 2022, 2023]"
  using requests_follow_the_year_range [of "''/repo''" no_network fresh exact_numerics]
  by (simp add: fresh_def no_network_def)

subsection \<open>A failing year\<close>

lemma handler_nonempty: "handler s y e \<noteq> []"
  by (cases e) (simp_all add: handler_def)

lemma run_year_failed:
  assumes "try_year s http y = Inl e"
  shows "files (run_year s http y w) = files w"
    and "\<not> (skip_existing s \<and> files w (output_file s y) \<noteq> None) \<Longrightarrow>
         stdout (run_year s http y w) = stdout w @ Fetching y # handler s y e"
  using assms by (auto simp: run_year_def Let_def)

lemma run_script_requests_all:
  assumes "inj_on (output_file s) (set years)"
  shows "requests (run_script s http w)
     = requests w @ map (\<lambda>y. (y, url s y))
         (filter (\<lambda>y. \<not> (skip_existing s \<and> files w (output_file s y) \<noteq> None)) years)"
proof (cases "skip_existing s")
  case True
  then show ?thesis using run_script_requests_skip [OF assms True] by simp
next
  case False
  then show ?thesis using run_script_requests_noskip [OF assms False] by simp
qed

lemma run_year_io_eq:
  "run_year_io wr s http y w =
     w\<lparr>files := (files w)(output_file s y := file_after_io wr s http y (files w (output_file s y))),
       requests := requests w @ year_requests s y (files w (output_file s y)),
       stdout := stdout w @ year_output_io wr s http y (files w (output_file s y))\<rparr>"
  by (auto simp: run_year_io_def file_after_io_def year_requests_def year_output_io_def
      year_error_def say_def Let_def split: sum.splits write_outcome.splits)

lemma run_year_io_files:
  "files (run_year_io wr s http y w) =
     (files w)(output_file s y := file_after_io wr s http y (files w (output_file s y)))"
  and run_year_io_requests:
  "requests (run_year_io wr s http y w)
     = requests w @ year_requests s y (files w (output_file s y))"
  and run_year_io_stdout:
  "stdout (run_year_io wr s http y w)
     = stdout w @ year_output_io wr s http y (files w (output_file s y))"
  by (simp_all add: run_year_io_eq)

text \<open>On a disk where every write succeeds the loop is the one of \<open>run_year\<close>.\<close>

lemma run_year_io_writes_succeed: "run_year_io writes_succeed s http y w = run_year s http y w"
  by (auto simp: run_year_io_def run_year_def writes_succeed_def Let_def split: sum.splits)

lemma run_script_io_writes_succeed: "run_script_io writes_succeed s http w = run_script s http w"
  by (simp add: run_script_io_def run_script_def run_year_io_writes_succeed [abs_def])

lemma fold_io_requests:
  "distinct ys \<Longrightarrow> inj_on (output_file s) (set ys) \<Longrightarrow>
   requests (fold (run_year_io wr s http) ys w)
     = requests w @ concat (map (\<lambda>y. year_requests s y (files w (output_file s y))) ys)"
proof (induction ys arbitrary: w)
  case Nil
  then show ?case by simp
next
  case (Cons a ys)
  have ne: "\<forall>y \<in> set ys. output_file s a \<noteq> output_file s y"
    using Cons.prems by (auto simp: inj_on_def)
  have "requests (fold (run_year_io wr s http) ys (run_year_io wr s http a w))
      = requests (run_year_io wr s http a w)
        @ concat (map (\<lambda>y. year_requests s y
            (files (run_year_io wr s http a w) (output_file s y))) ys)"
    using Cons.IH [of "run_year_io wr s http a w"] Cons.prems by (simp add: inj_on_def)
  moreover have "map (\<lambda>y. year_requests s y (files (run_year_io wr s http a w) (output_file s y))) ys
      = map (\<lambda>y. year_requests s y (files w (output_file s y))) ys"
    using ne by (intro map_cong) (auto simp: run_year_io_files)
  ultimately show ?case by (simp add: run_year_io_requests)
qed

lemma run_script_io_requests:
  assumes "inj_on (output_file s) (set years)"
  shows "requests (run_script_io wr s http w)
     = requests w @ map (\<lambda>y. (y, url s y))
         (filter (\<lambda>y. \<not> (skip_existing s \<and> files w (output_file s y) \<noteq> None)) years)"
proof -
  have "requests (run_script_io wr s http w)
      = requests w @ concat (map (\<lambda>y. year_requests s y (files w (output_file s y))) years)"
    unfolding run_script_io_def by (rule fold_io_requests [OF years_distinct assms])
  then show ?thesis
    by (cases "skip_existing s")
      (simp_all add: concat_year_requests_skip concat_year_requests_noskip)
qed

lemma run_year_io_failed:
  assumes "\<not> (skip_existing s \<and> files w (output_file s y) \<noteq> None)"
    and "year_error wr s http y (files w (output_file s y)) = Some e"
  shows "stdout (run_year_io wr s http y w) = stdout w @ Fetching y # handler s y e"
    and "p \<noteq> output_file s y \<Longrightarrow> files (run_year_io wr s http y w) p = files w p"
    and "try_year s http y = Inl e' \<Longrightarrow> files (run_year_io wr s http y w) = files w"
  using assms
  by (auto simp: run_year_io_stdout run_year_io_files year_output_io_def file_after_io_def)

lemma occupation_industry_year_io_writes_succeed:
  "occupation_industry_year_io writes_succeed L base http y w
     = occupation_industry_year L base http y w"
  by (auto simp: occupation_industry_year_io_def occupation_industry_year_def writes_succeed_def
      occupation_industry_handler_def occ_output_def ind_output_def Let_def
      split: sum.splits prod.splits)

lemma occupation_industry_year_io_requests:
  "requests (occupation_industry_year_io wr L base http y w)
     = requests w @ (y, occ_url y)
         # (case fetch_json (http (occ_url y)) of Inl e \<Rightarrow> [] | Inr d \<Rightarrow> [(y, ind_url y)])"
  by (auto simp: occupation_industry_year_io_def Let_def
      split: sum.splits prod.splits write_outcome.splits)

lemma occupation_industry_io_requests:
  "requests (fold (occupation_industry_year_io wr L base http) ys w)
     = requests w @ concat (map (\<lambda>y. (y, occ_url y)
         # (case fetch_json (http (occ_url y)) of Inl e \<Rightarrow> [] | Inr d \<Rightarrow> [(y, ind_url y)])) ys)"
  by (induction ys arbitrary: w) (simp_all add: occupation_industry_year_io_requests)

lemma occupation_industry_handler_nonempty: "occupation_industry_handler y e \<noteq> []"
  by (cases e) (simp_all add: occupation_industry_handler_def)

lemma occupation_industry_year_io_files:
  "p \<noteq> occ_output base y \<Longrightarrow> p \<noteq> ind_output base y \<Longrightarrow>
   files (occupation_industry_year_io wr L base http y w) p = files w p"
  by (auto simp: occupation_industry_year_io_def Let_def
      split: sum.splits prod.splits write_outcome.splits)

lemma occupation_industry_year_io_stdout:
  "\<exists>ms. ms \<noteq> [] \<and> stdout (occupation_industry_year_io wr L base http y w) = stdout w @ Fetching y # ms"
  using occupation_industry_handler_nonempty
  by (auto simp: occupation_industry_year_io_def Let_def
      split: sum.splits prod.splits write_outcome.splits)

lemma occupation_industry_year_io_failed:
  assumes "occupation_industry_frames L http y = Inl e"
  shows "files (occupation_industry_year_io wr L base http y w) = files w"
    and "stdout (occupation_industry_year_io wr L base http y w)
         = stdout w @ Fetching y # occupation_industry_handler y e"
  using assms
  by (auto simp: occupation_industry_year_io_def occupation_industry_frames_def Let_def
      bind_exn_def split: sum.splits prod.splits)

lemma occupation_industry_paths:
  assumes "0 \<le> y" "0 \<le> y'" "y' \<noteq> y"
  shows "occ_output base y' \<noteq> occ_output base y" "occ_output base y' \<noteq> ind_output base y"
    "ind_output base y' \<noteq> occ_output base y" "ind_output base y' \<noteq> ind_output base y"
proof -
  show "occ_output base y' \<noteq> occ_output base y" "ind_output base y' \<noteq> ind_output base y"
    using assms data_file_inj unfolding occ_output_def ind_output_def by blast+
  show "occ_output base y' \<noteq> ind_output base y" "ind_output base y' \<noteq> occ_output base y"
    by (simp_all add: occ_output_def ind_output_def data_file_def)
qed

lemma ipums_year_requests:
  "(case ipums_year wr api base ys w of Next w' \<Rightarrow> requests w' | Return w' \<Rightarrow> requests w')
     = requests w @ [ys]"
  by (cases ys) (auto simp: ipums_year_def Let_def
      split: wait_result.splits option.splits write_outcome.splits)

lemma ipums_year_flow:
  "(\<exists>w'. ipums_year wr api base ys w = Return w') \<longleftrightarrow> extract_fails api (fst ys)"
  by (cases ys) (auto simp: ipums_year_def extract_fails_def Let_def
      split: wait_result.splits option.splits write_outcome.splits)

lemma ipums_year_files:
  "(case ipums_year wr api base (year, smp) w of Next w' \<Rightarrow> files w' | Return w' \<Rightarrow> files w')
     = (if submit_ok api year \<and> wait_for_extract api year 0 = Ready \<and> download_ok api year
        then (case aggregated api year of
                None \<Rightarrow> files w
              | Some t \<Rightarrow>
                  (case wr (base @ ''/data/ipums_historical/ipums_puerto_rican_pop_''
                              @ str_int year @ ''.csv'')
                          (files w (base @ ''/data/ipums_historical/ipums_puerto_rican_pop_''
                              @ str_int year @ ''.csv'')) t of
                     Written \<Rightarrow> (files w)(base @ ''/data/ipums_historical/ipums_puerto_rican_pop_''
                               @ str_int year @ ''.csv'' \<mapsto> t)
                   | Write_fails left \<Rightarrow>
                       (files w)(base @ ''/data/ipums_historical/ipums_puerto_rican_pop_''
                               @ str_int year @ ''.csv'' := left)))
        else files w)"
  by (auto simp: ipums_year_def Let_def
      split: wait_result.splits option.splits write_outcome.splits)

lemma ipums_loop_requests:
  "requests (ipums_loop wr api base ys w)
     = requests w @ takeWhile (\<lambda>s. \<not> extract_fails api (fst s)) ys
         @ take 1 (dropWhile (\<lambda>s. \<not> extract_fails api (fst s)) ys)"
proof (induction ys arbitrary: w)
  case Nil
  then show ?case by simp
next
  case (Cons a ys)
  show ?case
  proof (cases "ipums_year wr api base a w")
    case (Next w')
    then have "\<not> extract_fails api (fst a)" using ipums_year_flow [of wr api base a w] by simp
    moreover have "requests w' = requests w @ [a]"
      using ipums_year_requests [of wr api base a w] Next by simp
    ultimately show ?thesis using Next Cons.IH [of w'] by simp
  next
    case (Return w')
    then have "extract_fails api (fst a)" using ipums_year_flow [of wr api base a w] by auto
    moreover have "requests w' = requests w @ [a]"
      using ipums_year_requests [of wr api base a w] Return by simp
    ultimately show ?thesis using Return by simp
  qed
qed

text \<open>
  Claim C5, as stated: in every download script a year that fails is skipped and the
  loop continues with the next year. In \<^verbatim>\<open>download_ipums_data\<close> an extract that reports
  \<^verbatim>\<open>'failed'\<close> makes the function return: when the extract of 1960 fails, 1970 and 1980
  are never submitted.
\<close>

theorem failed_extract_ends_the_run:
  "extract_fails failing_1960 1960
   \<and> requests (download_ipums_data writes_succeed ''key'' failing_1960 ''/repo'' fresh)
       = [(1960, ''us1960b'')]"
  by (simp add: extract_fails_def failing_1960_def download_ipums_data_def samples_def
      ipums_year_def fresh_def Let_def say_def)

text \<open>
  Claim C5, amended. In the download scripts of the Census API an iteration whose
  \<^verbatim>\<open>try\<close> raises, be it in the fetch, in the processing or in \<^verbatim>\<open>to_csv\<close>, prints the
  message of its \<^verbatim>\<open>except\<close> clause and ends; no exception leaves the loop body. It leaves
  every file but the output of its own year as it was, in particular the output files
  of the other years, and when the exception comes before \<^verbatim>\<open>to_csv\<close> it changes no file
  at all. The loop goes on: every year of the range whose output file is not skipped
  is requested, whatever happened in the other years. This holds for the scripts that
  are instances of the one loop and for the occupation and industry script, whose
  iteration writes two files. In \<^verbatim>\<open>download_ipums_data\<close> an exception or a timeout
  skips the year in the same way and only a complete iteration touches a file, that
  of its year, but an extract that reports \<^verbatim>\<open>'failed'\<close> ends the run: the years
  submitted are those up to and including the first whose extract fails.
\<close>

theorem failing_year_is_skipped:
  "(s \<in> set (census_api_scripts L base) \<longrightarrow> y \<in> set years \<longrightarrow>
      \<not> (skip_existing s \<and> files w' (output_file s y) \<noteq> None) \<longrightarrow>
      year_error wr s http y (files w' (output_file s y)) = Some e \<longrightarrow>
        stdout (run_year_io wr s http y w') = stdout w' @ Fetching y # handler s y e
        \<and> handler s y e \<noteq> []
        \<and> (\<forall>p. p \<noteq> output_file s y \<longrightarrow> files (run_year_io wr s http y w') p = files w' p)
        \<and> (\<forall>y' \<in> set years. y' \<noteq> y \<longrightarrow>
              files (run_year_io wr s http y w') (output_file s y') = files w' (output_file s y'))
        \<and> (try_year s http y = Inl e \<longrightarrow> files (run_year_io wr s http y w') = files w'))
   \<and> (s \<in> set (census_api_scripts L base) \<longrightarrow>
        requests (run_script_io wr s http w)
          = requests w @ map (\<lambda>y. (y, url s y))
              (filter (\<lambda>y. \<not> (skip_existing s \<and> files w (output_file s y) \<noteq> None)) years))
   \<and> (y \<in> set years \<longrightarrow>
        (\<exists>ms. ms \<noteq> [] \<and> stdout (occupation_industry_year_io wr L base http y w')
                 = stdout w' @ Fetching y # ms)
        \<and> (\<forall>p. p \<noteq> occ_output base y \<and> p \<noteq> ind_output base y \<longrightarrow>
              files (occupation_industry_year_io wr L base http y w') p = files w' p)
        \<and> (\<forall>y' \<in> set years. y' \<noteq> y \<longrightarrow>
              files (occupation_industry_year_io wr L base http y w') (occ_output base y')
                = files w' (occ_output base y')
              \<and> files (occupation_industry_year_io wr L base http y w') (ind_output base y')
                = files w' (ind_output base y'))
        \<and> (occupation_industry_frames L http y = Inl e2 \<longrightarrow>
              files (occupation_industry_year_io wr L base http y w') = files w'
              \<and> stdout (occupation_industry_year_io wr L base http y w')
                  = stdout w' @ Fetching y # occupation_industry_handler y e2))
   \<and> requests (download_occupation_industry_data_io wr L base http w)
       = requests w @ concat (map (\<lambda>y. (y, occ_url y)
           # (case fetch_json (http (occ_url y)) of Inl e \<Rightarrow> [] | Inr d \<Rightarrow> [(y, ind_url y)])) years)
   \<and> (api_key \<noteq> ''YOUR_API_KEY_HERE'' \<longrightarrow>
        requests (download_ipums_data wr api_key api base w)
          = requests w @ takeWhile (\<lambda>s. \<not> extract_fails api (fst s)) samples
              @ take 1 (dropWhile (\<lambda>s. \<not> extract_fails api (fst s)) samples))
   \<and> (case ipums_year wr api base (year, smp) w of Next w' \<Rightarrow> files w' | Return w' \<Rightarrow> files w')
       = (if submit_ok api year \<and> wait_for_extract api year 0 = Ready \<and> download_ok api year
          then (case aggregated api year of
                  None \<Rightarrow> files w
                | Some t \<Rightarrow>
                    (case wr (base @ ''/data/ipums_historical/ipums_puerto_rican_pop_''
                                @ str_int year @ ''.csv'')
                            (files w (base @ ''/data/ipums_historical/ipums_puerto_rican_pop_''
                                @ str_int year @ ''.csv'')) t of
                       Written \<Rightarrow> (files w)(base @ ''/data/ipums_historical/ipums_puerto_rican_pop_''
                                 @ str_int year @ ''.csv'' \<mapsto> t)
                     | Write_fails left \<Rightarrow>
                         (files w)(base @ ''/data/ipums_historical/ipums_puerto_rican_pop_''
                                 @ str_int year @ ''.csv'' := left)))
          else files w)"
proof -
  have a: "stdout (run_year_io wr s http y w') = stdout w' @ Fetching y # handler s y e
        \<and> handler s y e \<noteq> []
        \<and> (\<forall>p. p \<noteq> output_file s y \<longrightarrow> files (run_year_io wr s http y w') p = files w' p)
        \<and> (\<forall>y' \<in> set years. y' \<noteq> y \<longrightarrow>
              files (run_year_io wr s http y w') (output_file s y') = files w' (output_file s y'))
        \<and> (try_year s http y = Inl e \<longrightarrow> files (run_year_io wr s http y w') = files w')"
    if s: "s \<in> set (census_api_scripts L base)" and y: "y \<in> set years"
      and ns: "\<not> (skip_existing s \<and> files w' (output_file s y) \<noteq> None)"
      and ye: "year_error wr s http y (files w' (output_file s y)) = Some e"
  proof -
    note f = run_year_io_failed [OF ns ye]
    have inj: "inj_on (output_file s) (set years)" using s by (rule script_paths_inj)
    have "\<forall>y' \<in> set years. y' \<noteq> y \<longrightarrow>
        files (run_year_io wr s http y w') (output_file s y') = files w' (output_file s y')"
    proof (intro ballI impI)
      fix y' assume "y' \<in> set years" "y' \<noteq> y"
      then have "output_file s y' \<noteq> output_file s y" using inj y by (auto simp: inj_on_def)
      then show "files (run_year_io wr s http y w') (output_file s y') = files w' (output_file s y')"
        by (rule f(2))
    qed
    then show ?thesis using f handler_nonempty [of s y e] by blast
  qed
  have b: "requests (run_script_io wr s http w)
          = requests w @ map (\<lambda>y. (y, url s y))
              (filter (\<lambda>y. \<not> (skip_existing s \<and> files w (output_file s y) \<noteq> None)) years)"
    if "s \<in> set (census_api_scripts L base)"
    using that by (intro run_script_io_requests script_paths_inj)
  have c: "(\<exists>ms. ms \<noteq> [] \<and> stdout (occupation_industry_year_io wr L base http y w')
                 = stdout w' @ Fetching y # ms)
        \<and> (\<forall>p. p \<noteq> occ_output base y \<and> p \<noteq> ind_output base y \<longrightarrow>
              files (occupation_industry_year_io wr L base http y w') p = files w' p)
        \<and> (\<forall>y' \<in> set years. y' \<noteq> y \<longrightarrow>
              files (occupation_industry_year_io wr L base http y w') (occ_output base y')
                = files w' (occ_output base y')
              \<and> files (occupation_industry_year_io wr L base http y w') (ind_output base y')
                = files w' (ind_output base y'))
        \<and> (occupation_industry_frames L http y = Inl e2 \<longrightarrow>
              files (occupation_industry_year_io wr L base http y w') = files w'
              \<and> stdout (occupation_industry_year_io wr L base http y w')
                  = stdout w' @ Fetching y # occupation_industry_handler y e2)"
    if y: "y \<in> set years"
  proof -
    have y0: "0 \<le> y" using y by (simp add: years_set)
    have "\<forall>y' \<in> set years. y' \<noteq> y \<longrightarrow>
              files (occupation_industry_year_io wr L base http y w') (occ_output base y')
                = files w' (occ_output base y')
              \<and> files (occupation_industry_year_io wr L base http y w') (ind_output base y')
                = files w' (ind_output base y')"
    proof (intro ballI impI)
      fix y' assume y': "y' \<in> set years" "y' \<noteq> y"
      then have "0 \<le> y'" by (simp add: years_set)
      note ne = occupation_industry_paths [OF y0 this y'(2), of base]
      show "files (occupation_industry_year_io wr L base http y w') (occ_output base y')
                = files w' (occ_output base y')
              \<and> files (occupation_industry_year_io wr L base http y w') (ind_output base y')
                = files w' (ind_output base y')"
        using ne by (simp add: occupation_industry_year_io_files)
    qed
    then show ?thesis
      using occupation_industry_year_io_stdout [of wr L base http y w']
        occupation_industry_year_io_files [of _ base y wr L http w']
        occupation_industry_year_io_failed [of L http y e2 wr base w']
      by blast
  qed
  have d: "requests (download_occupation_industry_data_io wr L base http w)
       = requests w @ concat (map (\<lambda>y. (y, occ_url y)
           # (case fetch_json (http (occ_url y)) of Inl e \<Rightarrow> [] | Inr d \<Rightarrow> [(y, ind_url y)])) years)"
    unfolding download_occupation_industry_data_io_def by (rule occupation_industry_io_requests)
  have e: "requests (download_ipums_data wr api_key api base w)
          = requests w @ takeWhile (\<lambda>s. \<not> extract_fails api (fst s)) samples
              @ take 1 (dropWhile (\<lambda>s. \<not> extract_fails api (fst s)) samples)"
    if "api_key \<noteq> ''YOUR_API_KEY_HERE''"
    using that ipums_loop_requests [of wr api base samples w] by (simp add: download_ipums_data_def)
  show ?thesis
    using a b c d e ipums_year_files [of wr api base year smp w] by blast
qed

theorem failing_year_is_skipped_witness:
  "county_script ''/repo'' \<in> set (census_api_scripts exact_numerics ''/repo'')
   \<and> 2013 \<in> set years
   \<and> files county_2012_on_disk (output_file (county_script ''/repo'') 2013) = None
   \<and> year_error full_disk (county_script ''/repo'') duplicate_rows_server 2013 None = Some OSError
   \<and> stdout (run_year_io full_disk (county_script ''/repo'') duplicate_rows_server 2013
         county_2012_on_disk) = [Fetching 2013, ErrorFor 2013 OSError]
   \<and> files (run_year_io full_disk (county_script ''/repo'') duplicate_rows_server 2013
         county_2012_on_disk) (output_file (county_script ''/repo'') 2012) = Some county_table_2012
   \<and> requests (run_script_io full_disk (county_script ''/repo'') duplicate_rows_server fresh)
       = map (\<lambda>y. (y, url (county_script ''/repo'') y)) years
   \<and> occupation_industry_frames exact_numerics duplicate_rows_server 2013
       = Inl (KeyError (CStr ''B24010_001E''))
   \<and> files (occupation_industry_year_io full_disk exact_numerics ''/repo'' duplicate_rows_server
         2013 county_2012_on_disk) = files county_2012_on_disk
   \<and> stdout (occupation_industry_year_io full_disk exact_numerics ''/repo'' duplicate_rows_server
         2013 county_2012_on_disk) = [Fetching 2013, ErrorFor 2013 (KeyError (CStr ''B24010_001E''))]
   \<and> requests (download_ipums_data full_disk ''key'' failing_1960 ''/repo'' fresh)
       = [(1960, ''us1960b'')]"
proof -
  have h1: "county_script ''/repo'' \<in> set (census_api_scripts exact_numerics ''/repo'')"
    by (simp add: census_api_scripts_def)
  have h2: "2013 \<in> set years" "2012 \<in> set years" "(2012::int) \<noteq> 2013" by (simp_all add: years_set)
  have inj: "inj_on (output_file (county_script ''/repo'')) (set years)"
    using h1 by (rule script_paths_inj)
  have ne: "output_file (county_script ''/repo'') 2013 \<noteq> output_file (county_script ''/repo'') 2012"
  proof
    assume "output_file (county_script ''/repo'') 2013 = output_file (county_script ''/repo'') 2012"
    from inj_onD [OF inj this h2(1) h2(2)] show False by simp
  qed
  then have h3: "files county_2012_on_disk (output_file (county_script ''/repo'') 2013) = None"
    by (simp add: county_2012_on_disk_def)
  have t: "try_year (county_script ''/repo'') duplicate_rows_server 2013 =
      Inr \<lparr>columns = [CStr ''NAME'', CStr ''B03001_005E'', CStr ''state'', CStr ''year''],
           rows = [[CStr ''Alabama'', CStr ''12225'', CStr ''01'', CInt 2013],
                   [CStr ''Alabama'', CStr ''12225'', CStr ''01'', CInt 2013]]\<rparr>"
    by code_simp
  have h4: "year_error full_disk (county_script ''/repo'') duplicate_rows_server 2013 None
      = Some OSError"
    by (simp add: year_error_def t full_disk_def)
  have h5: "occupation_industry_frames exact_numerics duplicate_rows_server 2013
      = Inl (KeyError (CStr ''B24010_001E''))"
    by code_simp
  have h6: "''key'' \<noteq> ''YOUR_API_KEY_HERE''" by simp
  have f: "extract_fails failing_1960 1960" "requests fresh = []" "files fresh = Map.empty"
    "stdout county_2012_on_disk = []"
    "files county_2012_on_disk (output_file (county_script ''/repo'') 2012) = Some county_table_2012"
    "handler (county_script ''/repo'') 2013 OSError = [ErrorFor 2013 OSError]"
    "occupation_industry_handler 2013 (KeyError (CStr ''B24010_001E''))
       = [ErrorFor 2013 (KeyError (CStr ''B24010_001E''))]"
    by (simp_all add: extract_fails_def failing_1960_def fresh_def county_2012_on_disk_def
        handler_def occupation_industry_handler_def)
  from failing_year_is_skipped [where s = "county_script ''/repo''" and L = exact_numerics
      and base = "''/repo''" and y = 2013 and w' = county_2012_on_disk and wr = full_disk
      and http = duplicate_rows_server and e = OSError and w = fresh
      and ?e2.0 = "KeyError (CStr ''B24010_001E'')" and api_key = "''key''"
      and api = failing_1960 and year = 1960 and smp = "''us1960b''"]
  show ?thesis using h1 h2 h3 h4 h5 h6 f by (simp add: samples_def)
qed


subsection \<open>The table written for a year\<close>

lemma try_year_Inr:
  "try_year s http y = Inr df \<longleftrightarrow>
     (\<exists>headers rws df0. fetch_json (http (url s y)) = Inr (headers # rws)
        \<and> DataFrame rws headers = Inr df0
        \<and> transform s headers (setitem_scalar (CStr ''year'') (CInt y) df0) = Inr df)"
proof (cases "fetch_json (http (url s y))")
  case (Inl e)
  then show ?thesis by (simp add: try_year_def)
next
  case (Inr data)
  then show ?thesis
    by (cases data) (simp_all add: try_year_def frame_of_def bind_exn_Inr_iff)
qed

lemma getitem_in_columns: "getitem c df = Inr vs \<Longrightarrow> c \<in> set (columns df)"
proof -
  assume "getitem c df = Inr vs"
  then obtain i where "filter (\<lambda>i. columns df ! i = c) [0..<length (columns df)] = [i]"
    by (auto simp: getitem_def col_index_def bind_exn_Inr_iff split: list.splits)
  then have "i \<in> set (filter (\<lambda>i. columns df ! i = c) [0..<length (columns df)])" by simp
  then show ?thesis by auto
qed

lemma setitem_columns: "columns (setitem c vs df) = with_column c (columns df)"
  by (simp add: setitem_def with_column_def)

lemma assign_to_numeric_inv:
  assumes "frame_inv y n df" "c \<noteq> CStr ''year''" "assign_to_numeric L c df = Inr df'"
  shows "frame_inv y n df'" and "columns df' = columns df"
proof -
  obtain vs where vs: "getitem c df = Inr vs" and df': "df' = setitem c (map (to_numeric L) vs) df"
    using assms(3) by (auto simp: assign_to_numeric_def bind_exn_Inr_iff)
  have len: "length (map (to_numeric L) vs) = n"
    using getitem_length [OF vs] assms(1) by (simp add: frame_inv_def)
  show "frame_inv y n df'" unfolding df' by (rule setitem_inv(1) [OF assms(1) len assms(2)])
  show "columns df' = columns df"
    unfolding df' using getitem_in_columns [OF vs] by (simp add: setitem_columns with_column_def)
qed

lemma assign_rate_inv:
  assumes "frame_inv y n df" "new \<noteq> CStr ''year''" "assign_rate L new a b df = Inr df'"
  shows "frame_inv y n df'" and "columns df' = with_column new (columns df)"
proof -
  obtain ns ds where ns: "numeric_column a df = Inr ns" and ds: "numeric_column b df = Inr ds"
    and df': "df' = setitem new (map CNum (map2 (pct_rate (rnd L)) ns ds)) df"
    using assms(3) by (auto simp: assign_rate_def bind_exn_Inr_iff)
  have "length ns = n" "length ds = n"
    using numeric_column_length [OF ns] numeric_column_length [OF ds] assms(1)
    by (simp_all add: frame_inv_def)
  then have len: "length (map CNum (map2 (pct_rate (rnd L)) ns ds)) = n" by simp
  show "frame_inv y n df'" unfolding df' by (rule setitem_inv(1) [OF assms(1) len assms(2)])
  show "columns df' = with_column new (columns df)" unfolding df' by (rule setitem_columns)
qed

lemma rename_inv:
  assumes "frame_inv y n df"
    and "\<And>a b. (a, b) \<in> set m \<Longrightarrow> a \<noteq> CStr ''year'' \<and> b \<noteq> CStr ''year''"
  shows "frame_inv y n (rename m df)"
proof -
  define ren where "ren = (\<lambda>c. case map_of m c of None \<Rightarrow> c | Some c' \<Rightarrow> c')"
  have ren: "ren c = CStr ''year'' \<longleftrightarrow> c = CStr ''year''" for c
  proof (cases "map_of m c")
    case None
    then show ?thesis by (simp add: ren_def)
  next
    case (Some c')
    then have mem: "(c, c') \<in> set m" by (rule map_of_SomeD)
    have "c \<noteq> CStr ''year''" "c' \<noteq> CStr ''year''"
      using assms(2) [OF mem] by simp_all
    then show ?thesis using Some by (simp add: ren_def)
  qed
  have cols: "columns (rename m df) = map ren (columns df)"
    and rws: "rows (rename m df) = rows df"
    by (simp_all add: rename_def ren_def)
  have inv: "wf_table df" "CStr ''year'' \<in> set (columns df)" "length (rows df) = n"
    using assms(1) by (simp_all add: frame_inv_def year_column_def)
  have yc: "cell_at r i = CInt y"
    if "r \<in> set (rows df)" "i < length (columns df)" "columns df ! i = CStr ''year''" for r i
  proof -
    have "list_all (\<lambda>r. list_all (\<lambda>i. columns df ! i = CStr ''year'' \<longrightarrow> cell_at r i = CInt y)
                      [0..<length (columns df)]) (rows df)"
      using assms(1) by (simp add: frame_inv_def year_column_def)
    then have "list_all (\<lambda>i. columns df ! i = CStr ''year'' \<longrightarrow> cell_at r i = CInt y)
                      [0..<length (columns df)]"
      using that(1) by (simp add: list_all_iff)
    then show ?thesis using that(2,3) by (simp add: list_all_iff)
  qed
  have a: "wf_table (rename m df)" using inv(1) by (simp add: wf_table_def cols rws)
  have "ren (CStr ''year'') = CStr ''year''" by (simp add: ren)
  then have "CStr ''year'' \<in> ren ` set (columns df)" using inv(2) by (rule image_eqI [OF sym])
  then have b: "CStr ''year'' \<in> set (columns (rename m df))" by (simp add: cols)
  have c: "cell_at r i = CInt y"
    if "r \<in> set (rows (rename m df))" "i < length (columns (rename m df))"
      "columns (rename m df) ! i = CStr ''year''" for r i
  proof -
    have i': "i < length (columns df)" using that(2) by (simp add: cols)
    then have "ren (columns df ! i) = CStr ''year''" using that(3) by (simp add: cols)
    then have "columns df ! i = CStr ''year''" by (simp add: ren)
    then show "cell_at r i = CInt y" using yc that(1) i' by (simp add: rws)
  qed
  have "year_column y (rename m df)"
    unfolding year_column_def list_all_iff using b c by simp
  then show ?thesis using a inv(3) by (simp add: frame_inv_def rws)
qed

lemma census_frame:
  assumes "DataFrame rws headers = Inr df0"
  shows "frame_inv y (length rws) (setitem_scalar (CStr ''year'') (CInt y) df0)"
    and "columns (setitem_scalar (CStr ''year'') (CInt y) df0) = with_column (CStr ''year'') headers"
proof -
  note d = DataFrame_Inr [OF assms]
  show "frame_inv y (length rws) (setitem_scalar (CStr ''year'') (CInt y) df0)"
    using setitem_scalar_year(1) [OF d(3), of y] d(2) by simp
  show "columns (setitem_scalar (CStr ''year'') (CInt y) df0) = with_column (CStr ''year'') headers"
    using setitem_scalar_year(2) [OF d(3), of y] d(1) by (simp add: with_column_def)
qed

lemma poverty_frame_written:
  assumes "DataFrame rws headers = Inr df0"
    and "poverty_transform L headers (setitem_scalar (CStr ''year'') (CInt y) df0) = Inr df"
  shows "frame_inv y (length rws) df"
    and "columns df
         = map poverty_names (with_column (CStr ''poverty_rate'') (with_column (CStr ''year'') headers))"
proof -
  let ?df1 = "setitem_scalar (CStr ''year'') (CInt y) df0"
  obtain df2 df3 df4 where
    s2: "assign_to_numeric L (CStr ''B17001_001E'') ?df1 = Inr df2" and
    s3: "assign_to_numeric L (CStr ''B17001_002E'') df2 = Inr df3" and
    s4: "assign_rate L (CStr ''poverty_rate'') (CStr ''B17001_002E'') (CStr ''B17001_001E'') df3
         = Inr df4" and
    s5: "df = rename [(CStr ''B17001_001E'', CStr ''total_population''),
                      (CStr ''B17001_002E'', CStr ''below_poverty_level'')] df4"
    using assms(2) by (auto simp: poverty_transform_def bind_exn_Inr_iff)
  note i1 = census_frame [OF assms(1), of y]
  note i2 = assign_to_numeric_inv [OF i1(1) _ s2]
  note i3 = assign_to_numeric_inv [OF i2(1) _ s3]
  note i4 = assign_rate_inv [OF i3(1) _ s4]
  have f2: "frame_inv y (length rws) df2" "columns df2 = with_column (CStr ''year'') headers"
    using i2 i1(2) by simp_all
  have f3: "frame_inv y (length rws) df3" "columns df3 = with_column (CStr ''year'') headers"
    using i3 f2 by simp_all
  have f4: "frame_inv y (length rws) df4"
    "columns df4 = with_column (CStr ''poverty_rate'') (with_column (CStr ''year'') headers)"
    using i4 f3 by simp_all
  show "frame_inv y (length rws) df" unfolding s5 by (rule rename_inv [OF f4(1)]) auto
  show "columns df
         = map poverty_names (with_column (CStr ''poverty_rate'') (with_column (CStr ''year'') headers))"
    unfolding s5 by (simp add: rename_def f4(2) poverty_names_def fun_eq_iff)
qed


lemma census_written:
  assumes "s \<in> {census_script base, county_script base}" and "try_year s http y = Inr df"
  shows "\<exists>headers rws df0. fetch_json (http (url s y)) = Inr (headers # rws)
           \<and> DataFrame rws headers = Inr df0
           \<and> df = setitem_scalar (CStr ''year'') (CInt y) df0"
proof -
  have "transform s = (\<lambda>headers df. Inr df)"
    using assms(1) by (auto simp: census_script_def county_script_def)
  then show ?thesis using assms(2) by (auto simp: try_year_Inr)
qed

lemma written_file:
  assumes "s \<in> set (census_api_scripts L base)" "y \<in> set years" "try_year s http y = Inr df"
    and "files w (output_file s y) = None \<or> \<not> skip_existing s"
  shows "files (run_script s http w) (output_file s y) = Some df"
  using run_script_files_at [OF script_paths_inj [OF assms(1)] assms(2), of http w] assms(3,4)
  by (auto simp: file_after_def)

text \<open>
  Claim C6, as stated: the table written carries the header names as column names. The
  poverty script renames two of them before it writes: the headers
  \<open>B17001_001E\<close> and \<open>B17001_002E\<close> of the response are not column names of the table.
\<close>

theorem poverty_headers_are_renamed:
  "try_year (poverty_script exact_numerics ''/repo'') poverty_server 2010 =
     Inr \<lparr>columns = [CStr ''NAME'', CStr ''total_population'', CStr ''below_poverty_level'',
                     CStr ''state'', CStr ''year'', CStr ''poverty_rate''],
          rows = [[CStr ''Alabama'', CNum (Fin 8), CNum (Fin 1), CStr ''01'',
                   CInt 2010, CNum (Fin (25 / 2))]]\<rparr>"
  by code_simp

text \<open>
  Claim C6, amended. For every year whose fetch and processing succeed, the table
  written has as many rows as the JSON array has elements after the first, and a
  \<open>year\<close> column that holds the requested year in every row. In
  \<^verbatim>\<open>download_census_data\<close> its column names are the header names, followed by \<open>year\<close>
  unless that is a header already. In \<^verbatim>\<open>download_poverty_data\<close> they are the header
  names, \<open>year\<close> and \<open>poverty_rate\<close>, with \<open>B17001_001E\<close> renamed to \<open>total_population\<close> and
  \<open>B17001_002E\<close> to \<open>below_poverty_level\<close>.
\<close>

theorem table_written_for_a_year:
  assumes "y \<in> set years"
  shows "(try_year (census_script base) http y = Inr df \<longrightarrow>
           (\<exists>headers rws. fetch_json (http (url (census_script base) y)) = Inr (headers # rws)
              \<and> length (rows df) = length (headers # rws) - 1
              \<and> columns df = with_column (CStr ''year'') headers
              \<and> year_column y df)
           \<and> files (download_census_data base http w) (output_file (census_script base) y) = Some df)
       \<and> (try_year (poverty_script L base) http y = Inr df' \<longrightarrow>
           (\<exists>headers rws. fetch_json (http (url (poverty_script L base) y)) = Inr (headers # rws)
              \<and> length (rows df') = length (headers # rws) - 1
              \<and> columns df' = map poverty_names
                   (with_column (CStr ''poverty_rate'') (with_column (CStr ''year'') headers))
              \<and> year_column y df')
           \<and> files (download_poverty_data L base http w) (output_file (poverty_script L base) y)
               = Some df')"
proof (intro conjI impI)
  assume t: "try_year (census_script base) http y = Inr df"
  then obtain headers rws df0 where
    f: "fetch_json (http (url (census_script base) y)) = Inr (headers # rws)"
    and d: "DataFrame rws headers = Inr df0"
    and df: "df = setitem_scalar (CStr ''year'') (CInt y) df0"
    using census_written [of "census_script base" base http y df] by auto
  from census_frame [OF d, of y]
  have "length (rows df) = length (headers # rws) - 1"
    "columns df = with_column (CStr ''year'') headers" "year_column y df"
    by (simp_all add: df frame_inv_def)
  then show "\<exists>headers rws. fetch_json (http (url (census_script base) y)) = Inr (headers # rws)
              \<and> length (rows df) = length (headers # rws) - 1
              \<and> columns df = with_column (CStr ''year'') headers
              \<and> year_column y df"
    using f by blast
  have "census_script base \<in> set (census_api_scripts L base)"
    by (simp add: census_api_scripts_def)
  then show "files (download_census_data base http w) (output_file (census_script base) y) = Some df"
    unfolding download_census_data_def
    by (rule written_file [OF _ assms t]) (simp add: census_script_def)
next
  assume t: "try_year (poverty_script L base) http y = Inr df'"
  then obtain headers rws df0 where
    f: "fetch_json (http (url (poverty_script L base) y)) = Inr (headers # rws)"
    and d: "DataFrame rws headers = Inr df0"
    and p: "poverty_transform L headers (setitem_scalar (CStr ''year'') (CInt y) df0) = Inr df'"
    by (auto simp: try_year_Inr poverty_script_def)
  from poverty_frame_written [OF d p]
  have "length (rows df') = length (headers # rws) - 1"
    "columns df' = map poverty_names
       (with_column (CStr ''poverty_rate'') (with_column (CStr ''year'') headers))"
    "year_column y df'"
    by (simp_all add: frame_inv_def)
  then show "\<exists>headers rws. fetch_json (http (url (poverty_script L base) y)) = Inr (headers # rws)
              \<and> length (rows df') = length (headers # rws) - 1
              \<and> columns df' = map poverty_names
                   (with_column (CStr ''poverty_rate'') (with_column (CStr ''year'') headers))
              \<and> year_column y df'"
    using f by blast
  have "poverty_script L base \<in> set (census_api_scripts L base)"
    by (simp add: census_api_scripts_def)
  then show "files (download_poverty_data L base http w) (output_file (poverty_script L base) y)
               = Some df'"
    unfolding download_poverty_data_def
    by (rule written_file [OF _ assms t]) (simp add: poverty_script_def)
qed


theorem table_written_for_a_year_witness:
  "2010 \<in> set years
   \<and> try_year (poverty_script exact_numerics ''/repo'') poverty_server 2010 =
     Inr \<lparr>columns = [CStr ''NAME'', CStr ''total_population'', CStr ''below_poverty_level'',
                     CStr ''state'', CStr ''year'', CStr ''poverty_rate''],
          rows = [[CStr ''Alabama'', CNum (Fin 8), CNum (Fin 1), CStr ''01'',
                   CInt 2010, CNum (Fin (25 / 2))]]\<rparr>
   \<and> files (download_poverty_data exact_numerics ''/repo'' poverty_server fresh)
        (output_file (poverty_script exact_numerics ''/repo'') 2010) =
     Some \<lparr>columns = [CStr ''NAME'', CStr ''total_population'', CStr ''below_poverty_level'',
                      CStr ''state'', CStr ''year'', CStr ''poverty_rate''],
           rows = [[CStr ''Alabama'', CNum (Fin 8), CNum (Fin 1), CStr ''01'',
                    CInt 2010, CNum (Fin (25 / 2))]]\<rparr>"
proof -
  have h1: "2010 \<in> set years" by (simp add: years_set)
  have h2: "try_year (poverty_script exact_numerics ''/repo'') poverty_server 2010 =
     Inr \<lparr>columns = [CStr ''NAME'', CStr ''total_population'', CStr ''below_poverty_level'',
                     CStr ''state'', CStr ''year'', CStr ''poverty_rate''],
          rows = [[CStr ''Alabama'', CNum (Fin 8), CNum (Fin 1), CStr ''01'',
                   CInt 2010, CNum (Fin (25 / 2))]]\<rparr>"
    by code_simp
  from table_written_for_a_year [OF h1, of "''/repo''" poverty_server _ fresh exact_numerics]
  show ?thesis using h1 h2 by simp
qed

subsection \<open>Keys of the rows written\<close>

lemma map_of_zip_SomeD: "map_of (zip cols r) c = Some x \<Longrightarrow> c \<in> set cols"
  by (meson map_of_SomeD set_zip_leftD)

lemma lookup_cell_append_other:
  "length r = length cols \<Longrightarrow> c \<noteq> a \<Longrightarrow>
   lookup_cell (cols @ [a]) (r @ [v]) c = lookup_cell cols r c"
  by (auto simp: lookup_cell_def map_add_def split: option.splits dest: map_of_zip_SomeD)

lemma lookup_cell_append_new:
  "length r = length cols \<Longrightarrow> a \<notin> set cols \<Longrightarrow> lookup_cell (cols @ [a]) (r @ [v]) a = v"
  by (auto simp: lookup_cell_def map_add_def split: option.splits dest: map_of_zip_SomeD)

lemma distinct_map_Cons: "distinct (map (\<lambda>r. a # f r) rs) \<longleftrightarrow> distinct (map f rs)"
proof -
  have "map (\<lambda>r. a # f r) rs = map ((#) a) (map f rs)" by simp
  then show ?thesis by (simp only: distinct_map) (auto simp: inj_on_def)
qed

text \<open>
  Claim C4, as stated: no two rows of a table written share a (year, geography) key. The
  scripts write what the response holds: a response naming Alabama twice gives a file
  with two rows of key (2010, Alabama, 01).
\<close>

theorem duplicate_geography_is_written:
  "files (download_census_data ''/repo'' duplicate_rows_server fresh)
     (output_file (census_script ''/repo'') 2010) =
   Some \<lparr>columns = [CStr ''NAME'', CStr ''B03001_005E'', CStr ''state'', CStr ''year''],
         rows = [[CStr ''Alabama'', CStr ''12225'', CStr ''01'', CInt 2010],
                 [CStr ''Alabama'', CStr ''12225'', CStr ''01'', CInt 2010]]\<rparr>"
proof -
  have "try_year (census_script ''/repo'') duplicate_rows_server 2010 =
     Inr \<lparr>columns = [CStr ''NAME'', CStr ''B03001_005E'', CStr ''state'', CStr ''year''],
          rows = [[CStr ''Alabama'', CStr ''12225'', CStr ''01'', CInt 2010],
                  [CStr ''Alabama'', CStr ''12225'', CStr ''01'', CInt 2010]]\<rparr>"
    by code_simp
  moreover have "census_script ''/repo'' \<in> set (census_api_scripts exact_numerics ''/repo'')"
    by (simp add: census_api_scripts_def)
  moreover have "2010 \<in> set years" by (simp add: years_set)
  ultimately show ?thesis
    unfolding download_census_data_def
    by (intro written_file) (simp_all add: fresh_def)
qed

text \<open>
  Claim C4, amended. For every year whose fetch and processing succeed, the table
  written by the census and county scripts has exactly one row for each data row of
  the response, in the same order, each followed by the requested year. So no two rows
  of it share a (year, geography) key exactly when no two data rows of the response
  share the geography (whatever columns are taken as the geography); the scripts do
  not enforce it themselves.
\<close>

theorem written_rows_follow_the_response:
  assumes "s \<in> {census_script base, county_script base}"
    and "y \<in> set years"
    and "fetch_json (http (url s y)) = Inr (headers # rws)"
    and "try_year s http y = Inr df"
    and "CStr ''year'' \<notin> set headers" and "CStr ''year'' \<notin> set geo"
  shows "columns df = headers @ [CStr ''year'']
       \<and> rows df = map (\<lambda>r. pad_row (length headers) r @ [CInt y]) rws
       \<and> (distinct (map (\<lambda>r. map (lookup_cell (columns df) r) (CStr ''year'' # geo)) (rows df))
            \<longleftrightarrow> distinct (map (\<lambda>r. map (lookup_cell headers (pad_row (length headers) r)) geo) rws))
       \<and> (files w (output_file s y) = None \<or> \<not> skip_existing s \<longrightarrow>
            files (run_script s http w) (output_file s y) = Some df)"
proof -
  obtain df0 where d: "DataFrame rws headers = Inr df0"
    and df: "df = setitem_scalar (CStr ''year'') (CInt y) df0"
    using census_written [OF assms(1,4)] assms(3) by auto
  note D = DataFrame_Inr [OF d]
  have cols: "columns df = headers @ [CStr ''year'']"
    using setitem_scalar_year(2) [OF D(3), of y] assms(5) by (simp add: df D(1))
  have rws: "rows df = map (\<lambda>r. pad_row (length headers) r @ [CInt y]) rws"
    using setitem_scalar_year(3) [OF D(3), of y] assms(5) by (simp add: df D(1) D(2))
  have len: "\<And>r. r \<in> set rws \<Longrightarrow> length (pad_row (length headers) r) = length headers"
    using D(3) by (simp add: wf_table_def D(1) D(2) list_all_iff)
  have key: "\<And>r. r \<in> set rws \<Longrightarrow>
      map (lookup_cell (headers @ [CStr ''year'']) (pad_row (length headers) r @ [CInt y]))
        (CStr ''year'' # geo)
      = CInt y # map (lookup_cell headers (pad_row (length headers) r)) geo"
  proof -
    fix r assume r: "r \<in> set rws"
    have "\<And>c. c \<in> set geo \<Longrightarrow>
        lookup_cell (headers @ [CStr ''year'']) (pad_row (length headers) r @ [CInt y]) c
        = lookup_cell headers (pad_row (length headers) r) c"
      using assms(6) len [OF r] by (intro lookup_cell_append_other) auto
    then show "map (lookup_cell (headers @ [CStr ''year'']) (pad_row (length headers) r @ [CInt y]))
        (CStr ''year'' # geo)
      = CInt y # map (lookup_cell headers (pad_row (length headers) r)) geo"
      using lookup_cell_append_new [OF len [OF r] assms(5)] by simp
  qed
  have "map (\<lambda>r. map (lookup_cell (columns df) r) (CStr ''year'' # geo)) (rows df)
      = map (\<lambda>r. CInt y # map (lookup_cell headers (pad_row (length headers) r)) geo) rws"
    unfolding cols rws map_map comp_def using key by (intro map_cong refl)
  then have dist: "distinct (map (\<lambda>r. map (lookup_cell (columns df) r) (CStr ''year'' # geo)) (rows df))
            \<longleftrightarrow> distinct (map (\<lambda>r. map (lookup_cell headers (pad_row (length headers) r)) geo) rws)"
    by (simp only: distinct_map_Cons)
  have mem: "s \<in> set (census_api_scripts L base)" for L
    using assms(1) by (auto simp: census_api_scripts_def)
  have "files w (output_file s y) = None \<or> \<not> skip_existing s \<Longrightarrow>
      files (run_script s http w) (output_file s y) = Some df"
    by (rule written_file [OF mem assms(2,4)])
  then show ?thesis using cols rws dist by blast
qed

theorem written_rows_follow_the_response_witness:
  "2010 \<in> set years
   \<and> fetch_json (duplicate_rows_server (url (census_script ''/repo'') 2010)) =
       Inr ([CStr ''NAME'', CStr ''B03001_005E'', CStr ''state'']
            # [[CStr ''Alabama'', CStr ''12225'', CStr ''01''],
               [CStr ''Alabama'', CStr ''12225'', CStr ''01'']])
   \<and> try_year (census_script ''/repo'') duplicate_rows_server 2010 =
       Inr \<lparr>columns = [CStr ''NAME'', CStr ''B03001_005E'', CStr ''state'', CStr ''year''],
            rows = [[CStr ''Alabama'', CStr ''12225'', CStr ''01'', CInt 2010],
                    [CStr ''Alabama'', CStr ''12225'', CStr ''01'', CInt 2010]]\<rparr>
   \<and> CStr ''year'' \<notin> set [CStr ''NAME'', CStr ''B03001_005E'', CStr ''state'']
   \<and> CStr ''year'' \<notin> set [CStr ''state'']
   \<and> \<not> distinct (map (\<lambda>r. map (lookup_cell [CStr ''NAME'', CStr ''B03001_005E'', CStr ''state'']
                                    (pad_row 3 r)) [CStr ''state''])
                    [[CStr ''Alabama'', CStr ''12225'', CStr ''01''],
                     [CStr ''Alabama'', CStr ''12225'', CStr ''01'']])
   \<and> \<not> distinct (map (\<lambda>r. map (lookup_cell
                                     [CStr ''NAME'', CStr ''B03001_005E'', CStr ''state'', CStr ''year''] r)
                                  [CStr ''year'', CStr ''state''])
                    [[CStr ''Alabama'', CStr ''12225'', CStr ''01'', CInt 2010],
                     [CStr ''Alabama'', CStr ''12225'', CStr ''01'', CInt 2010]])"
proof -
  have h1: "census_script ''/repo'' \<in> {census_script ''/repo'', county_script ''/repo''}" by simp
  have h2: "2010 \<in> set years" by (simp add: years_set)
  have h3: "fetch_json (duplicate_rows_server (url (census_script ''/repo'') 2010)) =
       Inr ([CStr ''NAME'', CStr ''B03001_005E'', CStr ''state'']
            # [[CStr ''Alabama'', CStr ''12225'', CStr ''01''],
               [CStr ''Alabama'', CStr ''12225'', CStr ''01'']])"
    by (simp add: duplicate_rows_server_def)
  have h4: "try_year (census_script ''/repo'') duplicate_rows_server 2010 =
       Inr \<lparr>columns = [CStr ''NAME'', CStr ''B03001_005E'', CStr ''state'', CStr ''year''],
            rows = [[CStr ''Alabama'', CStr ''12225'', CStr ''01'', CInt 2010],
                    [CStr ''Alabama'', CStr ''12225'', CStr ''01'', CInt 2010]]\<rparr>"
    by code_simp
  have h5: "CStr ''year'' \<notin> set [CStr ''NAME'', CStr ''B03001_005E'', CStr ''state'']" by simp
  have h6: "CStr ''year'' \<notin> set [CStr ''state'']" by simp
  have n: "\<not> distinct (map (\<lambda>r. map (lookup_cell [CStr ''NAME'', CStr ''B03001_005E'', CStr ''state'']
                                    (pad_row 3 r)) [CStr ''state''])
                    [[CStr ''Alabama'', CStr ''12225'', CStr ''01''],
                     [CStr ''Alabama'', CStr ''12225'', CStr ''01'']])"
    by simp
  from written_rows_follow_the_response [OF h1 h2 h3 h4 h5 h6, of fresh]
  show ?thesis using h2 h3 h4 h5 h6 n by simp
qed

subsection \<open>The frame of the choropleth\<close>

lemma col_index_Inr:
  assumes "col_index c df = Inr j"
  shows "j < length (columns df)" and "columns df ! j = c"
    and "\<And>k. k < length (columns df) \<Longrightarrow> columns df ! k = c \<Longrightarrow> k = j"
proof -
  have f: "filter (\<lambda>i. columns df ! i = c) [0..<length (columns df)] = [j]"
    using assms by (auto simp: col_index_def split: list.splits)
  then have "j \<in> set (filter (\<lambda>i. columns df ! i = c) [0..<length (columns df)])" by simp
  then show "j < length (columns df)" and "columns df ! j = c" by simp_all
  fix k assume "k < length (columns df)" "columns df ! k = c"
  then have "k \<in> set (filter (\<lambda>i. columns df ! i = c) [0..<length (columns df)])" by simp
  then show "k = j" using f by simp
qed

lemma col_index_cong: "columns df' = columns df \<Longrightarrow> col_index c df' = col_index c df"
  by (simp add: col_index_def)

lemma getitem_Inr:
  "getitem c df = Inr vs \<longleftrightarrow> (\<exists>i. col_index c df = Inr i \<and> vs = map (\<lambda>r. cell_at r i) (rows df))"
  by (auto simp: getitem_def bind_exn_Inr_iff)

lemma mask_by_column:
  "map snd (filter fst (zip (map p xs) xs)) = filter p xs"
  by (induction xs) auto

lemma mask_rows_derived:
  "rows (mask_rows (map p (map g (rows df))) df) = filter (\<lambda>r. p (g r)) (rows df)"
  "columns (mask_rows keep df) = columns df"
  using mask_by_column [of "\<lambda>r. p (g r)" "rows df"] by (simp_all add: mask_rows_def comp_def)

lemma map2_derived: "map2 f (map g xs) xs = map (\<lambda>x. f (g x) x) xs"
  by (induction xs) auto

lemma concat_frames_wf: "wf_table (concat_frames dfs)"
  by (auto simp: wf_table_def concat_frames_def Let_def list_all_iff)

lemma rename_wf: "wf_table df \<Longrightarrow> wf_table (rename m df)"
  by (simp add: wf_table_def rename_def)

text \<open>After \<^verbatim>\<open>df[c] = df[src].map(f)\<close>, the cell of \<open>c\<close> is \<open>f\<close> of the cell of \<open>src\<close> in every
  row.\<close>

lemma setitem_derived:
  assumes wf: "wf_table df" and i: "col_index src df = Inr i" and ne: "src \<noteq> c"
    and df': "df' = setitem c (map (\<lambda>r. f (cell_at r i)) (rows df)) df"
    and i': "col_index src df' = Inr i'" and j: "col_index c df' = Inr j"
  shows "list_all (\<lambda>r. cell_at r j = f (cell_at r i')) (rows df')"
proof -
  note I = col_index_Inr [OF i]
  note I' = col_index_Inr [OF i']
  note J = col_index_Inr [OF j]
  have len: "\<And>r. r \<in> set (rows df) \<Longrightarrow> length r = length (columns df)"
    using wf by (simp add: wf_table_def list_all_iff)
  show ?thesis
  proof (cases "c \<in> set (columns df)")
    case True
    have cols: "columns df' = columns df" using True by (simp add: df' setitem_def)
    have rws: "rows df' = map (\<lambda>r. map2 (\<lambda>l x. if l = c then f (cell_at r i) else x) (columns df) r)
        (rows df)"
      using True by (simp add: df' setitem_def map2_derived)
    have ii: "i' = i" using I'(3) [of i] I(1,2) by (simp add: cols)
    have "\<And>r. r \<in> set (rows df) \<Longrightarrow>
        cell_at (map2 (\<lambda>l x. if l = c then f (cell_at r i) else x) (columns df) r) j
        = f (cell_at (map2 (\<lambda>l x. if l = c then f (cell_at r i) else x) (columns df) r) i)"
      using len I(1,2) J(1,2) ne by (simp add: cell_at_map2 cols)
    then show ?thesis by (simp add: rws ii list_all_iff)
  next
    case False
    have cols: "columns df' = columns df @ [c]" using False by (simp add: df' setitem_def)
    have rws: "rows df' = map (\<lambda>r. r @ [f (cell_at r i)]) (rows df)"
      using False by (simp add: df' setitem_def map2_derived)
    have ii: "i' = i" using I'(3) [of i] I(1,2) by (simp add: cols nth_append)
    have "j = length (columns df)"
    proof (rule ccontr)
      assume "j \<noteq> length (columns df)"
      then have "j < length (columns df)" using J(1) by (simp add: cols)
      then have "columns df ! j = c" using J(2) by (simp add: cols nth_append)
      then show False using False \<open>j < length (columns df)\<close> by (metis nth_mem)
    qed
    then have "\<And>r. r \<in> set (rows df) \<Longrightarrow>
        cell_at (r @ [f (cell_at r i)]) j = f (cell_at (r @ [f (cell_at r i)]) i)"
      using len I(1) by (simp add: cell_at_def nth_append)
    then show ?thesis by (simp add: rws ii list_all_iff)
  qed
qed

lemma state_code_CStr:
  "state_code c = CStr code \<Longrightarrow> \<exists>name. c = CStr name \<and> map_of us_state_to_abbrev name = Some code"
  by (cases c) (auto split: option.splits)

lemma state_code_isna: "\<not> isna (state_code c) \<Longrightarrow> \<exists>code. state_code c = CStr code"
  by (cases c) (auto simp: isna_def split: option.splits)

lemma abbrev_two_letters: "(name, code) \<in> set us_state_to_abbrev \<Longrightarrow> length code = 2"
  by (auto simp: us_state_to_abbrev_def)

lemma map_frame_rows:
  assumes "map_frame df_list = Inr map_df"
  shows "\<exists>i j. col_index (CStr ''State'') map_df = Inr i
           \<and> col_index (CStr ''StateCode'') map_df = Inr j
           \<and> list_all (\<lambda>r. cell_at r i \<noteq> CStr ''Puerto Rico'' \<and> \<not> isna (cell_at r j)
                             \<and> cell_at r j = state_code (cell_at r i)) (rows map_df)"
proof -
  define full where "full = rename [(CStr ''B03001_005E'', CStr ''Population''),
      (CStr ''NAME'', CStr ''State''), (CStr ''year'', CStr ''Year'')] (concat_frames df_list)"
  have wf: "wf_table full" unfolding full_def by (intro rename_wf concat_frames_wf)
  obtain states states2 masked where
    g1: "getitem (CStr ''State'') full = Inr states" and
    g2: "getitem (CStr ''State'') (setitem (CStr ''StateCode'') (map state_code states) full)
         = Inr states2" and
    dn: "dropna (CStr ''StateCode'')
           (mask_rows (map (\<lambda>s. s \<noteq> CStr ''Puerto Rico'') states2)
              (setitem (CStr ''StateCode'') (map state_code states) full)) = Inr masked" and
    sv: "sort_values (CStr ''Year'') masked = Inr map_df"
    using assms unfolding map_frame_def Let_def full_def [symmetric]
    by (auto simp: bind_exn_Inr_iff)
  define full2 where "full2 = setitem (CStr ''StateCode'') (map state_code states) full"
  obtain i where i: "col_index (CStr ''State'') full = Inr i"
    and st: "states = map (\<lambda>r. cell_at r i) (rows full)"
    using g1 by (auto simp: getitem_Inr)
  obtain i' where i': "col_index (CStr ''State'') full2 = Inr i'"
    and st2: "states2 = map (\<lambda>r. cell_at r i') (rows full2)"
    using g2 by (auto simp: getitem_Inr full2_def)
  let ?m = "mask_rows (map (\<lambda>s. s \<noteq> CStr ''Puerto Rico'') states2) full2"
  have mcols: "columns ?m = columns full2" by (rule mask_rows_derived(2))
  have mrows: "rows ?m = filter (\<lambda>r. cell_at r i' \<noteq> CStr ''Puerto Rico'') (rows full2)"
    unfolding st2 by (rule mask_rows_derived(1))
  obtain j where j: "col_index (CStr ''StateCode'') ?m = Inr j"
    and masked: "masked = mask_rows (map (\<lambda>v. \<not> isna v) (map (\<lambda>r. cell_at r j) (rows ?m))) ?m"
    using dn by (auto simp: dropna_def getitem_Inr bind_exn_Inr_iff full2_def)
  have j2: "col_index (CStr ''StateCode'') full2 = Inr j"
    using j col_index_cong [OF mcols] by simp
  have dcols: "columns masked = columns full2" by (simp add: masked mask_rows_derived(2))
  have drows: "rows masked = filter (\<lambda>r. \<not> isna (cell_at r j)) (rows ?m)"
    unfolding masked by (rule mask_rows_derived(1))
  have fcols: "columns map_df = columns full2" and frows: "set (rows map_df) = set (rows masked)"
    using sv by (auto simp: sort_values_def bind_exn_Inr_iff dcols Let_def split: if_splits)
  have der: "list_all (\<lambda>r. cell_at r j = state_code (cell_at r i')) (rows full2)"
    by (rule setitem_derived [OF wf i _ _ i' j2]) (simp_all add: full2_def st comp_def)
  have "list_all (\<lambda>r. cell_at r i' \<noteq> CStr ''Puerto Rico'' \<and> \<not> isna (cell_at r j)
                             \<and> cell_at r j = state_code (cell_at r i')) (rows map_df)"
    using der by (auto simp: list_all_iff frows drows mrows)
  moreover have "col_index (CStr ''State'') map_df = Inr i'"
    "col_index (CStr ''StateCode'') map_df = Inr j"
    using i' j2 col_index_cong [OF fcols] by simp_all
  ultimately show ?thesis by blast
qed


text \<open>
  Claim C10. Every row of the frame \<^verbatim>\<open>generate_map\<close> hands to the choropleth has a
  \<open>State\<close> that is the name of an entry of the abbreviation table other than Puerto
  Rico, and its \<open>StateCode\<close> is the two-letter abbreviation of that entry. So a row whose
  state name has no abbreviation is not among them.
\<close>

theorem choropleth_rows_are_mainland_states:
  assumes "generate_map base d = Inr (written, printed)"
    and "(path, Choropleth map_df) \<in> set written"
  shows "\<exists>i j. col_index (CStr ''State'') map_df = Inr i
           \<and> col_index (CStr ''StateCode'') map_df = Inr j
           \<and> (\<forall>r \<in> set (rows map_df). \<exists>name code.
                 cell_at r i = CStr name \<and> name \<noteq> ''Puerto Rico''
                 \<and> cell_at r j = CStr code \<and> (name, code) \<in> set us_state_to_abbrev
                 \<and> length code = 2)"
proof -
  obtain df_list where "map_frame df_list = Inr map_df"
    using assms by (auto simp: generate_map_def Let_def bind_exn_Inr_iff split: if_splits)
  then obtain i j where i: "col_index (CStr ''State'') map_df = Inr i"
    and j: "col_index (CStr ''StateCode'') map_df = Inr j"
    and all: "list_all (\<lambda>r. cell_at r i \<noteq> CStr ''Puerto Rico'' \<and> \<not> isna (cell_at r j)
                             \<and> cell_at r j = state_code (cell_at r i)) (rows map_df)"
    using map_frame_rows by blast
  have "\<exists>name code. cell_at r i = CStr name \<and> name \<noteq> ''Puerto Rico''
          \<and> cell_at r j = CStr code \<and> (name, code) \<in> set us_state_to_abbrev \<and> length code = 2"
    if r: "r \<in> set (rows map_df)" for r
  proof -
    have "cell_at r i \<noteq> CStr ''Puerto Rico'' \<and> \<not> isna (cell_at r j)
        \<and> cell_at r j = state_code (cell_at r i)"
      using all r unfolding list_all_iff by blast
    then have p: "cell_at r i \<noteq> CStr ''Puerto Rico''" "\<not> isna (state_code (cell_at r i))"
      "cell_at r j = state_code (cell_at r i)"
      by metis+
    then obtain code where c: "state_code (cell_at r i) = CStr code"
      using state_code_isna [of "cell_at r i"] by auto
    then obtain name where n: "cell_at r i = CStr name" "map_of us_state_to_abbrev name = Some code"
      using state_code_CStr by blast
    then have m: "(name, code) \<in> set us_state_to_abbrev" by (simp add: map_of_SomeD)
    show ?thesis using p n c m abbrev_two_letters [OF m] by auto
  qed
  then show ?thesis using i j by blast
qed

theorem choropleth_rows_are_mainland_states_witness:
  "generate_map ''/repo'' census_disk =
     Inr ([(''/repo/docs/graph7_map.html'',
            Choropleth
              \<lparr>columns = [CStr ''State'', CStr ''Population'', CStr ''state'', CStr ''Year'',
                          CStr ''StateCode''],
               rows = [[CStr ''Alabama'', CInt 12225, CInt 1, CInt 2010, CStr ''AL'']]\<rparr>)],
          [Note ''Map saved''])
   \<and> (\<exists>i j. col_index (CStr ''State'')
               \<lparr>columns = [CStr ''State'', CStr ''Population'', CStr ''state'', CStr ''Year'',
                           CStr ''StateCode''],
                rows = [[CStr ''Alabama'', CInt 12225, CInt 1, CInt 2010, CStr ''AL'']]\<rparr> = Inr i
           \<and> col_index (CStr ''StateCode'')
               \<lparr>columns = [CStr ''State'', CStr ''Population'', CStr ''state'', CStr ''Year'',
                           CStr ''StateCode''],
                rows = [[CStr ''Alabama'', CInt 12225, CInt 1, CInt 2010, CStr ''AL'']]\<rparr> = Inr j
           \<and> (\<forall>r \<in> set [[CStr ''Alabama'', CInt 12225, CInt 1, CInt 2010, CStr ''AL'']].
                 \<exists>name code. cell_at r i = CStr name \<and> name \<noteq> ''Puerto Rico''
                   \<and> cell_at r j = CStr code \<and> (name, code) \<in> set us_state_to_abbrev
                   \<and> length code = 2))"
proof -
  have h1: "generate_map ''/repo'' census_disk =
     Inr ([(''/repo/docs/graph7_map.html'',
            Choropleth
              \<lparr>columns = [CStr ''State'', CStr ''Population'', CStr ''state'', CStr ''Year'',
                          CStr ''StateCode''],
               rows = [[CStr ''Alabama'', CInt 12225, CInt 1, CInt 2010, CStr ''AL'']]\<rparr>)],
          [Note ''Map saved''])"
    by code_simp
  from choropleth_rows_are_mainland_states [OF h1, of "''/repo/docs/graph7_map.html''"
      "\<lparr>columns = [CStr ''State'', CStr ''Population'', CStr ''state'', CStr ''Year'',
                  CStr ''StateCode''],
        rows = [[CStr ''Alabama'', CInt 12225, CInt 1, CInt 2010, CStr ''AL'']]\<rparr>"]
  show ?thesis using h1 by simp
qed

text \<open>A \<open>Year\<close> column of strings is sorted as strings, and the frame reaches the
  choropleth.\<close>

lemma generate_map_sorts_text_years:
  "generate_map ''/repo'' census_disk_text_years =
     Inr ([(''/repo/docs/graph7_map.html'',
            Choropleth
              \<lparr>columns = [CStr ''State'', CStr ''Population'', CStr ''state'', CStr ''Year'',
                          CStr ''StateCode''],
               rows = [[CStr ''Alaska'', CInt 4500, CInt 2, CStr ''2010'', CStr ''AK''],
                       [CStr ''Alabama'', CInt 12225, CInt 1, CStr ''2011 (est.)'', CStr ''AL'']]\<rparr>)],
          [Note ''Map saved''])"
  by code_simp

subsection \<open>A missing input file\<close>

text \<open>
  Claim C3 at a disk without any input file: \<^verbatim>\<open>generate_map\<close> and
  \<^verbatim>\<open>generate_migration_economic_correlation\<close> print their warning and return having
  written nothing, while \<^verbatim>\<open>generate_population_pyramid\<close> raises \<^verbatim>\<open>FileNotFoundError\<close>.
\<close>

theorem population_pyramid_raises_without_input:
  "generate_population_pyramid [] = Inl FileNotFoundError
   \<and> generate_map ''/repo'' [] = Inr ([], [Note ''No data found in data/census_acs5/''])
   \<and> generate_migration_economic_correlation ''/repo'' []
       = Inr ([], [Note ''Puerto Rico economic data not found. Skipping correlation visualization.''])"
  by (simp add: generate_population_pyramid_def read_csv_def generate_map_def glob_def
      generate_migration_economic_correlation_def path_exists_def)

end
